theory Spec2Isabelle
  imports Complex_Main "HOL-Library.Monad_Syntax"
begin

section \<open>The tensor library, as the scripts use it\<close>

text \<open>
  The four scripts build their networks from layers of an external tensor library and
  call its functions on tensors. The library is not part of the repository, so the
  type of tensors is a parameter \<open>'t\<close> and the library is a record of operations on it:
  one entry per layer class and per function the scripts call. A layer is called with
  the arguments its constructor was given (defaults written out).
\<close>

record 't torch =
  nn_Conv2d :: "nat \<Rightarrow> nat \<Rightarrow> nat \<Rightarrow> nat \<Rightarrow> nat \<Rightarrow> bool \<Rightarrow> 't \<Rightarrow> 't"
  nn_ConvTranspose2d :: "nat \<Rightarrow> nat \<Rightarrow> nat \<Rightarrow> nat \<Rightarrow> nat \<Rightarrow> 't \<Rightarrow> 't"
  nn_BatchNorm2d :: "nat \<Rightarrow> bool \<Rightarrow> 't \<Rightarrow> 't"
  nn_Embedding :: "nat \<Rightarrow> nat \<Rightarrow> int list \<Rightarrow> 't"
  F_relu :: "'t \<Rightarrow> 't"
  F_elu :: "'t \<Rightarrow> 't"
  torch_tanh :: "'t \<Rightarrow> 't"
  torch_add :: "'t \<Rightarrow> 't \<Rightarrow> 't"
  torch_mul :: "'t \<Rightarrow> 't \<Rightarrow> 't"
  torch_chunk2 :: "nat \<Rightarrow> 't \<Rightarrow> 't \<times> 't"
  torch_view :: "int list \<Rightarrow> 't \<Rightarrow> 't"
  torch_size :: "'t \<Rightarrow> nat list"

text \<open>
  Module objects. The leaves are the library's layers with their constructor arguments:
  \<open>Conv2d in out kernel stride padding bias\<close>,
  \<open>ConvTranspose2d in out kernel stride output_padding\<close>,
  \<open>BatchNorm2d features affine\<close>. The other constructors are the container
  \<open>Sequential\<close> and the classes of \<^verbatim>\<open>resnet_cifar.py\<close>, each holding the
  attributes its \<^verbatim>\<open>__init__\<close> assigns (\<open>residual\<close>; \<open>actnorm\<close>; \<open>block\<close>;
  \<open>activate\<close> and \<open>encoder\<close>; \<open>activate\<close> and \<open>decoder\<close>).
\<close>

datatype module =
    Conv2d nat nat nat nat nat bool
  | ConvTranspose2d nat nat nat nat nat
  | BatchNorm2d nat bool
  | ReLU
  | ELU
  | Tanh
  | Sequential "module list"
  | BasicBlock module
  | ELU_BatchNorm2d module
  | BiggerBlock module
  | ResidualEncoder module module
  | ResidualDecoder module module

text \<open>Calling a module: the library's layers, and the \<^verbatim>\<open>forward\<close> methods of
  \<^verbatim>\<open>resnet_cifar.py\<close>.\<close>

fun forward :: "'t torch \<Rightarrow> module \<Rightarrow> 't \<Rightarrow> 't" where
  "forward T (Conv2d i out k s p b) x = nn_Conv2d T i out k s p b x"
| "forward T (ConvTranspose2d i out k s op) x = nn_ConvTranspose2d T i out k s op x"
| "forward T (BatchNorm2d n affine) x = nn_BatchNorm2d T n affine x"
| "forward T ReLU x = F_relu T x"
| "forward T ELU x = F_elu T x"
| "forward T Tanh x = torch_tanh T x"
| "forward T (Sequential ms) x = fold (forward T) ms x"
| "forward T (BasicBlock residual) x = torch_add T x (forward T residual x)"
| "forward T (ELU_BatchNorm2d actnorm) x = forward T actnorm x"
| "forward T (BiggerBlock block) x = torch_add T x (forward T block x)"
| "forward T (ResidualEncoder activate encoder) x = forward T encoder x"
| "forward T (ResidualDecoder activate decoder) x = forward T decoder x"

section \<open>Shapes\<close>

text \<open>
  The library's shape rules, on batched image tensors \<open>[N, C, H, W]\<close>. A tensor is
  read as its shape; \<open>None\<close> stands for the library's failure on a shape it refuses.
\<close>

type_synonym shape = "nat list option"

definition conv2d_shape :: "nat \<Rightarrow> nat \<Rightarrow> nat \<Rightarrow> nat \<Rightarrow> nat \<Rightarrow> bool \<Rightarrow> shape \<Rightarrow> shape" where
  "conv2d_shape i out k s p b x =
     (case x of
        Some [n, c, h, w] \<Rightarrow>
          if c = i \<and> 0 < s \<and> 0 < k \<and> k \<le> h + 2 * p \<and> k \<le> w + 2 * p
          then Some [n, out, (h + 2 * p - k) div s + 1, (w + 2 * p - k) div s + 1]
          else None
      | _ \<Rightarrow> None)"

definition conv_transpose2d_shape :: "nat \<Rightarrow> nat \<Rightarrow> nat \<Rightarrow> nat \<Rightarrow> nat \<Rightarrow> shape \<Rightarrow> shape" where
  "conv_transpose2d_shape i out k s op x =
     (case x of
        Some [n, c, h, w] \<Rightarrow>
          if c = i \<and> 0 < s \<and> 0 < k \<and> op < s \<and> 0 < h \<and> 0 < w
          then Some [n, out, (h - 1) * s + k + op, (w - 1) * s + k + op]
          else None
      | _ \<Rightarrow> None)"

text \<open>
  Batch normalization keeps the shape. A module is built in training mode, \<open>train()\<close>
  sets that mode and \<open>eval()\<close> leaves it; in training mode the library refuses an input
  with a single value per channel (\<open>N * H * W = 1\<close>), since the batch statistics are
  computed over these values.
\<close>

definition batch_norm2d_shape :: "bool \<Rightarrow> nat \<Rightarrow> bool \<Rightarrow> shape \<Rightarrow> shape" where
  "batch_norm2d_shape training features affine x =
     (case x of
        Some [n, c, h, w] \<Rightarrow>
          if c = features
          then (if training \<and> n * h * w = 1 then None else Some [n, c, h, w])
          else None
      | _ \<Rightarrow> None)"

definition embedding_shape :: "nat \<Rightarrow> nat \<Rightarrow> int list \<Rightarrow> shape" where
  "embedding_shape num_embeddings embedding_dim y =
     (if list_all (\<lambda>c. 0 \<le> c \<and> c < int num_embeddings) y
      then Some [length y, embedding_dim] else None)"

text \<open>Broadcasting of two shapes, aligned at the last dimension (on reversed lists).\<close>

fun broadcast_rev :: "nat list \<Rightarrow> nat list \<Rightarrow> nat list option" where
  "broadcast_rev [] ys = Some ys"
| "broadcast_rev (x # xs) [] = Some (x # xs)"
| "broadcast_rev (x # xs) (y # ys) =
     (if x = y then map_option ((#) x) (broadcast_rev xs ys)
      else if y = 1 then map_option ((#) x) (broadcast_rev xs ys)
      else if x = 1 then map_option ((#) y) (broadcast_rev xs ys)
      else None)"

definition broadcast_shape :: "shape \<Rightarrow> shape \<Rightarrow> shape" where
  "broadcast_shape a b =
     (case (a, b) of
        (Some xs, Some ys) \<Rightarrow> map_option rev (broadcast_rev (rev xs) (rev ys))
      | _ \<Rightarrow> None)"

definition chunk2_shape :: "nat \<Rightarrow> shape \<Rightarrow> shape \<times> shape" where
  "chunk2_shape d x =
     (case x of
        Some xs \<Rightarrow>
          if d < length xs \<and> 2 \<le> xs ! d
          then (Some (xs[d := (xs ! d + 1) div 2]), Some (xs[d := xs ! d - (xs ! d + 1) div 2]))
          else (None, None)
      | None \<Rightarrow> (None, None))"

text \<open>\<^verbatim>\<open>view\<close>: the element count is kept; one dimension may be \<open>-1\<close> and is inferred.\<close>

definition view_shape :: "int list \<Rightarrow> shape \<Rightarrow> shape" where
  "view_shape tgt x =
     (case x of
        Some xs \<Rightarrow>
          (let numel = prod_list xs;
               known = prod_list (map nat (filter (\<lambda>d. 0 \<le> d) tgt));
               holes = length (filter (\<lambda>d. d = -1) tgt)
           in if list_all (\<lambda>d. -1 \<le> d) tgt \<and> holes = 0 \<and> known = numel
              then Some (map nat tgt)
              else if list_all (\<lambda>d. -1 \<le> d) tgt \<and> holes = 1 \<and> 0 < known \<and> numel mod known = 0
              then Some (map (\<lambda>d. if d = -1 then numel div known else nat d) tgt)
              else None)
      | None \<Rightarrow> None)"

definition size_shape :: "shape \<Rightarrow> nat list" where
  "size_shape x = (case x of Some xs \<Rightarrow> xs | None \<Rightarrow> [])"

text \<open>The library on shapes, for modules in training mode or in evaluation mode.\<close>

definition shapes :: "bool \<Rightarrow> shape torch" where
  "shapes training =
     \<lparr> nn_Conv2d = conv2d_shape,
       nn_ConvTranspose2d = conv_transpose2d_shape,
       nn_BatchNorm2d = batch_norm2d_shape training,
       nn_Embedding = embedding_shape,
       F_relu = (\<lambda>x. x),
       F_elu = (\<lambda>x. x),
       torch_tanh = (\<lambda>x. x),
       torch_add = broadcast_shape,
       torch_mul = broadcast_shape,
       torch_chunk2 = chunk2_shape,
       torch_view = view_shape,
       torch_size = size_shape \<rparr>"

section \<open>\<^verbatim>\<open>convolutional_cifar.py\<close>\<close>

datatype conv_Encoder = conv_Encoder module module module module

datatype conv_Decoder = conv_Decoder module module module module

datatype conv_Autoencoder = conv_Autoencoder conv_Encoder conv_Decoder

definition conv_Encoder_init :: conv_Encoder where
  "conv_Encoder_init =
     (let conv1 = Conv2d 3 8 3 2 0 True;
          conv2 = Conv2d 8 16 3 2 0 True;
          conv3 = Conv2d 16 32 3 2 0 True;
          conv4 = Conv2d 32 64 3 2 0 True
      in conv_Encoder conv1 conv2 conv3 conv4)"

fun conv_Encoder_forward :: "'t torch \<Rightarrow> conv_Encoder \<Rightarrow> 't \<Rightarrow> 't" where
  "conv_Encoder_forward T (conv_Encoder conv1 conv2 conv3 conv4) x =
     (let x = F_relu T (forward T conv1 x);
          x = F_relu T (forward T conv2 x);
          x = F_relu T (forward T conv3 x);
          x = F_relu T (forward T conv4 x)
      in x)"

definition conv_Decoder_init :: conv_Decoder where
  "conv_Decoder_init =
     (let conv4 = ConvTranspose2d 64 32 3 2 0;
          conv3 = ConvTranspose2d 32 16 3 2 0;
          conv2 = ConvTranspose2d 16 8 3 2 0;
          conv1 = ConvTranspose2d 8 3 3 2 1
      in conv_Decoder conv4 conv3 conv2 conv1)"

fun conv_Decoder_forward :: "'t torch \<Rightarrow> conv_Decoder \<Rightarrow> 't \<Rightarrow> 't" where
  "conv_Decoder_forward T (conv_Decoder conv4 conv3 conv2 conv1) x =
     (let x = F_relu T (forward T conv4 x);
          x = F_relu T (forward T conv3 x);
          x = F_relu T (forward T conv2 x);
          x = torch_tanh T (forward T conv1 x)
      in x)"

definition conv_Autoencoder_init :: conv_Autoencoder where
  "conv_Autoencoder_init = conv_Autoencoder conv_Encoder_init conv_Decoder_init"

fun conv_Autoencoder_forward :: "'t torch \<Rightarrow> conv_Autoencoder \<Rightarrow> 't \<Rightarrow> 't" where
  "conv_Autoencoder_forward T (conv_Autoencoder encoder decoder) x =
     (let x = conv_Encoder_forward T encoder x;
          x = conv_Decoder_forward T decoder x
      in x)"

section \<open>\<^verbatim>\<open>resnet_cifar.py\<close>\<close>

definition res_BasicBlock_init :: "nat \<Rightarrow> module" where
  "res_BasicBlock_init filters =
     (let residual = Sequential [
            Conv2d filters filters 3 1 1 True,
            ReLU,
            BatchNorm2d filters True,
            Conv2d filters filters 3 1 1 False,
            ReLU,
            BatchNorm2d filters True]
      in BasicBlock residual)"

definition res_ELU_BatchNorm2d_init :: "nat \<Rightarrow> module" where
  "res_ELU_BatchNorm2d_init filters =
     (let actnorm = Sequential [
            ELU,
            BatchNorm2d filters True]
      in ELU_BatchNorm2d actnorm)"

definition res_BiggerBlock_init :: "nat \<Rightarrow> module" where
  "res_BiggerBlock_init filters =
     (let block = Sequential [
            res_BasicBlock_init filters,
            ReLU,
            BatchNorm2d filters True,
            res_BasicBlock_init filters,
            ReLU,
            BatchNorm2d filters True]
      in BiggerBlock block)"

definition res_ResidualEncoder_init :: module where
  "res_ResidualEncoder_init =
     (let activate = ELU;
          encoder = Sequential [
            Conv2d 3 16 3 1 1 False,
            activate,
            res_BiggerBlock_init 16,
            res_ELU_BatchNorm2d_init 16,

            Conv2d 16 32 3 2 0 True,
            activate,
            res_BiggerBlock_init 32,
            res_ELU_BatchNorm2d_init 32,

            Conv2d 32 64 3 2 0 True,
            activate,
            res_BiggerBlock_init 64,
            res_ELU_BatchNorm2d_init 64,

            Conv2d 64 128 3 2 0 True,
            activate,
            res_BiggerBlock_init 128,
            res_ELU_BatchNorm2d_init 128,

            Conv2d 128 256 3 2 0 False]
      in ResidualEncoder activate encoder)"

definition res_ResidualDecoder_init :: module where
  "res_ResidualDecoder_init =
     (let activate = ELU;
          decoder = Sequential [
            BatchNorm2d 256 True,
            ConvTranspose2d 256 128 3 2 0,

            res_ELU_BatchNorm2d_init 128,
            res_BiggerBlock_init 128,
            activate,
            ConvTranspose2d 128 64 3 2 0,

            res_ELU_BatchNorm2d_init 64,
            res_BiggerBlock_init 64,
            activate,
            ConvTranspose2d 64 32 3 2 0,

            res_ELU_BatchNorm2d_init 32,
            res_BiggerBlock_init 32,
            activate,
            ConvTranspose2d 32 16 3 2 1,

            res_ELU_BatchNorm2d_init 16,
            res_BiggerBlock_init 16,
            activate,
            Conv2d 16 3 3 1 1 True,

            Tanh]
      in ResidualDecoder activate decoder)"

text \<open>\<^verbatim>\<open>Autoencoder.__init__(self, bottleneck)\<close> and \<^verbatim>\<open>Autoencoder.forward\<close>.\<close>

datatype res_Autoencoder = res_Autoencoder module module

definition res_Autoencoder_init :: "int \<Rightarrow> res_Autoencoder" where
  "res_Autoencoder_init bottleneck =
     (let encoder = res_ResidualEncoder_init;
          decoder = res_ResidualDecoder_init
      in res_Autoencoder encoder decoder)"

fun res_Autoencoder_forward :: "'t torch \<Rightarrow> res_Autoencoder \<Rightarrow> 't \<Rightarrow> 't" where
  "res_Autoencoder_forward T (res_Autoencoder encoder decoder) x =
     (let x = forward T encoder x;
          x = forward T decoder x
      in x)"

section \<open>\<^verbatim>\<open>conditional_autoencoder.py\<close>\<close>

text \<open>
  Python's exceptions are values: \<open>IndexError\<close> is raised by \<^verbatim>\<open>list(x.size())[0]\<close> on a
  tensor without dimensions and by \<^verbatim>\<open>filters[i]\<close> on a list that is too short;
  \<open>RuntimeError\<close> and \<open>ValueError\<close> are what the library raises on tensors it refuses.
\<close>

datatype error = IndexError | RuntimeError | ValueError

datatype embedding = Embedding nat nat

text \<open>\<^verbatim>\<open>ConditionalBatchNorm2d\<close>: the attributes \<open>features\<close>, \<open>bn\<close> and \<open>embed\<close>.\<close>

datatype cond_ConditionalBatchNorm2d = ConditionalBatchNorm2d nat module embedding

definition cond_ConditionalBatchNorm2d_init :: "nat \<Rightarrow> nat \<Rightarrow> cond_ConditionalBatchNorm2d" where
  "cond_ConditionalBatchNorm2d_init features classes =
     (let bn = BatchNorm2d features False;
          embed = Embedding classes (features * 2)
      in ConditionalBatchNorm2d features bn embed)"

text \<open>
  Lines 25 to 27 of the constructor set the values of \<open>embed.weight\<close>, a matrix of
  \<open>classes\<close> rows and \<open>features * 2\<close> columns: the library fills it from its normal
  sampler, then the first \<open>features\<close> columns are overwritten by \<^verbatim>\<open>uniform_(0, 1)\<close> and
  the remaining columns by \<^verbatim>\<open>zero_()\<close>. The samplers are the library's; they are
  parameters here, indexed by row and column.
\<close>

definition Embedding_weight :: "(nat \<Rightarrow> nat \<Rightarrow> real) \<Rightarrow> nat \<Rightarrow> nat \<Rightarrow> real list list" where
  "Embedding_weight normal num_embeddings embedding_dim =
     map (\<lambda>c. map (\<lambda>j. normal c j) [0..<embedding_dim]) [0..<num_embeddings]"

definition uniform_columns :: "(nat \<Rightarrow> nat \<Rightarrow> real) \<Rightarrow> nat \<Rightarrow> real list list \<Rightarrow> real list list" where
  "uniform_columns uniform features weight =
     map (\<lambda>(c, row). map (\<lambda>j. uniform c j) [0..<min features (length row)] @ drop features row)
       (enumerate 0 weight)"

definition zero_columns :: "nat \<Rightarrow> real list list \<Rightarrow> real list list" where
  "zero_columns features weight =
     map (\<lambda>row. take features row @ replicate (length row - features) 0) weight"

definition cond_ConditionalBatchNorm2d_init_weight ::
  "(nat \<Rightarrow> nat \<Rightarrow> real) \<Rightarrow> (nat \<Rightarrow> nat \<Rightarrow> real) \<Rightarrow> nat \<Rightarrow> nat \<Rightarrow> real list list" where
  "cond_ConditionalBatchNorm2d_init_weight normal uniform features classes =
     (let weight = Embedding_weight normal classes (features * 2);
          weight = uniform_columns uniform features weight;
          weight = zero_columns features weight
      in weight)"

text \<open>
  The methods below return, beside the output tensor, the labels with which
  \<^verbatim>\<open>ConditionalBatchNorm2d.forward\<close> was called, in the order of the calls.
\<close>

fun cond_ConditionalBatchNorm2d_forward ::
  "'t torch \<Rightarrow> cond_ConditionalBatchNorm2d \<Rightarrow> 't \<Rightarrow> int list \<Rightarrow> 't \<times> int list list" where
  "cond_ConditionalBatchNorm2d_forward T (ConditionalBatchNorm2d features bn (Embedding classes d)) x y =
     (let out = forward T bn x;
          (gamma, beta) = torch_chunk2 T 1 (nn_Embedding T classes d y);
          out = torch_add T
                  (torch_mul T (torch_view T [-1, int features, 1, 1] gamma) out)
                  (torch_view T [-1, int features, 1, 1] beta)
      in (out, [y]))"

text \<open>\<^verbatim>\<open>torch.zeros(batch_size).to(x).long()\<close>\<close>

definition zeros_long :: "nat \<Rightarrow> int list" where
  "zeros_long batch_size = replicate batch_size 0"

datatype cond_BasicBlock = cond_BasicBlock module cond_ConditionalBatchNorm2d module cond_ConditionalBatchNorm2d

definition cond_BasicBlock_init :: "nat \<Rightarrow> cond_BasicBlock" where
  "cond_BasicBlock_init filters =
     (let conv1 = Conv2d filters filters 3 1 1 False;
          bn1 = cond_ConditionalBatchNorm2d_init filters 10;
          conv2 = Conv2d filters filters 3 1 1 False;
          bn2 = cond_ConditionalBatchNorm2d_init filters 10
      in cond_BasicBlock conv1 bn1 conv2 bn2)"

fun cond_BasicBlock_conditional_forward ::
  "'t torch \<Rightarrow> cond_BasicBlock \<Rightarrow> 't \<Rightarrow> int list \<Rightarrow> 't \<times> int list list" where
  "cond_BasicBlock_conditional_forward T (cond_BasicBlock conv1 bn1 conv2 bn2) x y =
     (let out = forward T conv1 x;
          (out, l1) = cond_ConditionalBatchNorm2d_forward T bn1 out y;
          out = F_relu T out;
          out = forward T conv2 out;
          (out, l2) = cond_ConditionalBatchNorm2d_forward T bn2 out y
      in (torch_add T x out, l1 @ l2))"

definition cond_BasicBlock_forward ::
  "'t torch \<Rightarrow> cond_BasicBlock \<Rightarrow> 't \<Rightarrow> error + 't \<times> int list list" where
  "cond_BasicBlock_forward T self x =
     (case torch_size T x of
        [] \<Rightarrow> Inl IndexError
      | batch_size # _ \<Rightarrow>
          (let y = zeros_long batch_size
           in Inr (cond_BasicBlock_conditional_forward T self x y)))"

datatype cond_ELU_BatchNorm2d = cond_ELU_BatchNorm2d cond_ConditionalBatchNorm2d

definition cond_ELU_BatchNorm2d_init :: "nat \<Rightarrow> cond_ELU_BatchNorm2d" where
  "cond_ELU_BatchNorm2d_init filters =
     (let bn = cond_ConditionalBatchNorm2d_init filters 10
      in cond_ELU_BatchNorm2d bn)"

fun cond_ELU_BatchNorm2d_conditional_forward ::
  "'t torch \<Rightarrow> cond_ELU_BatchNorm2d \<Rightarrow> 't \<Rightarrow> int list \<Rightarrow> 't \<times> int list list" where
  "cond_ELU_BatchNorm2d_conditional_forward T (cond_ELU_BatchNorm2d bn) x y =
     (let x = F_elu T x;
          (x, l) = cond_ConditionalBatchNorm2d_forward T bn x y
      in (x, l))"

definition cond_ELU_BatchNorm2d_forward ::
  "'t torch \<Rightarrow> cond_ELU_BatchNorm2d \<Rightarrow> 't \<Rightarrow> error + 't \<times> int list list" where
  "cond_ELU_BatchNorm2d_forward T self x =
     (case torch_size T x of
        [] \<Rightarrow> Inl IndexError
      | batch_size # _ \<Rightarrow>
          (let y = zeros_long batch_size
           in Inr (cond_ELU_BatchNorm2d_conditional_forward T self x y)))"

text \<open>\<^verbatim>\<open>ResidualEncoder\<close>: the attributes \<open>activate\<close>, \<open>conv5\<close>, then \<open>block\<close>, \<open>eb\<close> and
  \<open>conv\<close> of the stages 4 to 1.\<close>

datatype cond_ResidualEncoder =
  cond_ResidualEncoder module module
    cond_BasicBlock cond_ELU_BatchNorm2d module
    cond_BasicBlock cond_ELU_BatchNorm2d module
    cond_BasicBlock cond_ELU_BatchNorm2d module
    cond_BasicBlock cond_ELU_BatchNorm2d module

definition cond_ResidualEncoder_init :: "nat list \<Rightarrow> error + cond_ResidualEncoder" where
  "cond_ResidualEncoder_init filters =
     (if length filters < 5 then Inl IndexError
      else
        (let activate = ELU;
             conv5 = Conv2d 3 (filters ! 0) 3 1 1 True;
             block4 = cond_BasicBlock_init (filters ! 0);
             eb4 = cond_ELU_BatchNorm2d_init (filters ! 0);
             conv4 = Conv2d (filters ! 0) (filters ! 1) 3 2 0 True;
             block3 = cond_BasicBlock_init (filters ! 1);
             eb3 = cond_ELU_BatchNorm2d_init (filters ! 1);
             conv3 = Conv2d (filters ! 1) (filters ! 2) 3 2 0 True;
             block2 = cond_BasicBlock_init (filters ! 2);
             eb2 = cond_ELU_BatchNorm2d_init (filters ! 2);
             conv2 = Conv2d (filters ! 2) (filters ! 3) 3 2 0 True;
             block1 = cond_BasicBlock_init (filters ! 3);
             eb1 = cond_ELU_BatchNorm2d_init (filters ! 3);
             conv1 = Conv2d (filters ! 3) (filters ! 4) 3 2 0 False
         in Inr (cond_ResidualEncoder activate conv5 block4 eb4 conv4 block3 eb3 conv3
                   block2 eb2 conv2 block1 eb1 conv1)))"

fun cond_ResidualEncoder_conditional_forward ::
  "'t torch \<Rightarrow> cond_ResidualEncoder \<Rightarrow> 't \<Rightarrow> int list \<Rightarrow> 't \<times> int list list" where
  "cond_ResidualEncoder_conditional_forward T
     (cond_ResidualEncoder activate conv5 block4 eb4 conv4 block3 eb3 conv3
        block2 eb2 conv2 block1 eb1 conv1) x y =
     (let x = forward T conv5 x;
          x = forward T activate x;

          (x, l1) = cond_BasicBlock_conditional_forward T block4 x y;
          (x, l2) = cond_ELU_BatchNorm2d_conditional_forward T eb4 x y;
          x = forward T conv4 x;
          x = forward T activate x;

          (x, l3) = cond_BasicBlock_conditional_forward T block3 x y;
          (x, l4) = cond_ELU_BatchNorm2d_conditional_forward T eb3 x y;
          x = forward T conv3 x;
          x = forward T activate x;

          (x, l5) = cond_BasicBlock_conditional_forward T block2 x y;
          (x, l6) = cond_ELU_BatchNorm2d_conditional_forward T eb2 x y;
          x = forward T conv2 x;
          x = forward T activate x;

          (x, l7) = cond_BasicBlock_conditional_forward T block1 x y;
          (x, l8) = cond_ELU_BatchNorm2d_conditional_forward T eb1 x y;
          x = forward T conv1 x
      in (x, l1 @ l2 @ l3 @ l4 @ l5 @ l6 @ l7 @ l8))"

definition cond_ResidualEncoder_forward ::
  "'t torch \<Rightarrow> cond_ResidualEncoder \<Rightarrow> 't \<Rightarrow> error + 't \<times> int list list" where
  "cond_ResidualEncoder_forward T self x =
     (case torch_size T x of
        [] \<Rightarrow> Inl IndexError
      | batch_size # _ \<Rightarrow>
          (let y = zeros_long batch_size
           in Inr (cond_ResidualEncoder_conditional_forward T self x y)))"

text \<open>\<^verbatim>\<open>ResidualDecoder\<close>: the attributes \<open>activate\<close>, then \<open>conv\<close>, \<open>eb\<close> and \<open>block\<close>
  of the stages 1 to 4, \<open>conv5\<close> and \<open>out\<close>.\<close>

datatype cond_ResidualDecoder =
  cond_ResidualDecoder module
    module cond_ELU_BatchNorm2d cond_BasicBlock
    module cond_ELU_BatchNorm2d cond_BasicBlock
    module cond_ELU_BatchNorm2d cond_BasicBlock
    module cond_ELU_BatchNorm2d cond_BasicBlock
    module module

definition cond_ResidualDecoder_init :: "nat list \<Rightarrow> error + cond_ResidualDecoder" where
  "cond_ResidualDecoder_init filters =
     (if length filters < 5 then Inl IndexError
      else
        (let activate = ELU;
             conv1 = ConvTranspose2d (filters ! 4) (filters ! 3) 3 2 0;
             eb1 = cond_ELU_BatchNorm2d_init (filters ! 3);
             block1 = cond_BasicBlock_init (filters ! 3);
             conv2 = ConvTranspose2d (filters ! 3) (filters ! 2) 3 2 0;
             eb2 = cond_ELU_BatchNorm2d_init (filters ! 2);
             block2 = cond_BasicBlock_init (filters ! 2);
             conv3 = ConvTranspose2d (filters ! 2) (filters ! 1) 3 2 0;
             eb3 = cond_ELU_BatchNorm2d_init (filters ! 1);
             block3 = cond_BasicBlock_init (filters ! 1);
             conv4 = ConvTranspose2d (filters ! 1) (filters ! 0) 3 2 1;
             eb4 = cond_ELU_BatchNorm2d_init (filters ! 0);
             block4 = cond_BasicBlock_init (filters ! 0);
             conv5 = Conv2d (filters ! 0) 3 3 1 1 True;
             out = Tanh
         in Inr (cond_ResidualDecoder activate conv1 eb1 block1 conv2 eb2 block2
                   conv3 eb3 block3 conv4 eb4 block4 conv5 out)))"

fun cond_ResidualDecoder_conditional_forward ::
  "'t torch \<Rightarrow> cond_ResidualDecoder \<Rightarrow> 't \<Rightarrow> int list \<Rightarrow> 't \<times> int list list" where
  "cond_ResidualDecoder_conditional_forward T
     (cond_ResidualDecoder activate conv1 eb1 block1 conv2 eb2 block2
        conv3 eb3 block3 conv4 eb4 block4 conv5 out) x y =
     (let x = forward T conv1 x;
          (x, l1) = cond_ELU_BatchNorm2d_conditional_forward T eb1 x y;
          (x, l2) = cond_BasicBlock_conditional_forward T block1 x y;

          x = forward T activate x;
          x = forward T conv2 x;
          (x, l3) = cond_ELU_BatchNorm2d_conditional_forward T eb2 x y;
          (x, l4) = cond_BasicBlock_conditional_forward T block2 x y;

          x = forward T activate x;
          x = forward T conv3 x;
          (x, l5) = cond_ELU_BatchNorm2d_conditional_forward T eb3 x y;
          (x, l6) = cond_BasicBlock_conditional_forward T block3 x y;

          x = forward T activate x;
          x = forward T conv4 x;
          (x, l7) = cond_ELU_BatchNorm2d_conditional_forward T eb4 x y;
          (x, l8) = cond_BasicBlock_conditional_forward T block4 x y;

          x = forward T activate x;
          x = forward T conv5 x;

          x = forward T out x
      in (x, l1 @ l2 @ l3 @ l4 @ l5 @ l6 @ l7 @ l8))"

definition cond_ResidualDecoder_forward ::
  "'t torch \<Rightarrow> cond_ResidualDecoder \<Rightarrow> 't \<Rightarrow> error + 't \<times> int list list" where
  "cond_ResidualDecoder_forward T self x =
     (case torch_size T x of
        [] \<Rightarrow> Inl IndexError
      | batch_size # _ \<Rightarrow>
          (let y = zeros_long batch_size
           in Inr (cond_ResidualDecoder_conditional_forward T self x y)))"

datatype cond_Autoencoder = cond_Autoencoder cond_ResidualEncoder cond_ResidualDecoder

definition cond_Autoencoder_init :: "error + cond_Autoencoder" where
  "cond_Autoencoder_init =
     (let filters = [16, 32, 64, 128, 256 :: nat];
          filters = [64, 128, 128, 256, 256 :: nat];
          filters = [32, 64, 128, 256, 512 :: nat];
          filters = [64, 128, 256, 512, 1024 :: nat]
      in case cond_ResidualEncoder_init filters of
           Inl e \<Rightarrow> Inl e
         | Inr encoder \<Rightarrow>
             (case cond_ResidualDecoder_init filters of
                Inl e \<Rightarrow> Inl e
              | Inr decoder \<Rightarrow> Inr (cond_Autoencoder encoder decoder)))"

text \<open>
  \<^verbatim>\<open>Autoencoder.conditional_forward\<close>: line 205 calls the encoder as
  \<^verbatim>\<open>self.encoder(x)\<close>, which is \<^verbatim>\<open>ResidualEncoder.forward\<close>; the call
  \<^verbatim>\<open>.conditional_forward(x, y)\<close> stands behind the comment sign.
\<close>

fun cond_Autoencoder_conditional_forward ::
  "'t torch \<Rightarrow> cond_Autoencoder \<Rightarrow> 't \<Rightarrow> int list \<Rightarrow> error + 't \<times> int list list" where
  "cond_Autoencoder_conditional_forward T (cond_Autoencoder encoder decoder) x y =
     (case cond_ResidualEncoder_forward T encoder x of
        Inl e \<Rightarrow> Inl e
      | Inr (x, l1) \<Rightarrow>
          (let (x, l2) = cond_ResidualDecoder_conditional_forward T decoder x y
           in Inr (x, l1 @ l2)))"

definition cond_Autoencoder_forward ::
  "'t torch \<Rightarrow> cond_Autoencoder \<Rightarrow> 't \<Rightarrow> error + 't \<times> int list list" where
  "cond_Autoencoder_forward T self x =
     (case torch_size T x of
        [] \<Rightarrow> Inl IndexError
      | batch_size # _ \<Rightarrow>
          (let y = zeros_long batch_size
           in cond_Autoencoder_conditional_forward T self x y))"

section \<open>\<^verbatim>\<open>autoencoders/mnist_old/feedforward.py\<close>\<close>

text \<open>
  The feedforward script uses three library functions only (\<^verbatim>\<open>nn.Linear\<close>,
  \<^verbatim>\<open>F.relu\<close>, \<^verbatim>\<open>torch.sigmoid\<close>), so its tensors are modelled with their values:
  a batch of vectors is a list of rows of reals, a batch of images a list of
  channels of rows. \<open>None\<close> is the library's failure on operands whose sizes do not fit.
\<close>

type_synonym matrix = "real list list"

type_synonym images = "real list list list list"

text \<open>\<open>Linear in_features out_features weight bias\<close>; \<open>weight\<close> has \<open>out_features\<close> rows
  of \<open>in_features\<close> entries. The constructor draws both from the library's sampler.\<close>

datatype ff_Linear = Linear nat nat matrix "real list"

type_synonym sampler = "(nat \<Rightarrow> nat \<Rightarrow> real) \<times> (nat \<Rightarrow> real)"

definition Linear_init :: "nat \<Rightarrow> nat \<Rightarrow> sampler \<Rightarrow> ff_Linear" where
  "Linear_init in_features out_features sampler =
     (case sampler of (w, b) \<Rightarrow>
        Linear in_features out_features
          (map (\<lambda>r. map (\<lambda>c. w r c) [0..<in_features]) [0..<out_features])
          (map b [0..<out_features]))"

fun Linear_forward :: "ff_Linear \<Rightarrow> matrix \<Rightarrow> matrix option" where
  "Linear_forward (Linear in_features out_features weight bias) x =
     (if list_all (\<lambda>row. length row = in_features) x
      then Some (map (\<lambda>row. map (\<lambda>(w, b). sum_list (map (\<lambda>(a, v). a * v) (zip w row)) + b)
                              (zip weight bias)) x)
      else None)"

definition relu :: "matrix \<Rightarrow> matrix" where
  "relu x = map (map (\<lambda>v. max 0 v)) x"

definition sigmoid :: "matrix \<Rightarrow> matrix" where
  "sigmoid x = map (map (\<lambda>v. 1 / (1 + exp (- v)))) x"

datatype ff_Encoder = ff_Encoder ff_Linear ff_Linear ff_Linear ff_Linear

datatype ff_Decoder = ff_Decoder ff_Linear ff_Linear ff_Linear ff_Linear

datatype ff_Autoencoder = ff_Autoencoder ff_Encoder ff_Decoder

text \<open>The constructors take the samples of the layers they create, in creation order.\<close>

definition ff_Encoder_init :: "(nat \<Rightarrow> sampler) \<Rightarrow> ff_Encoder" where
  "ff_Encoder_init rng =
     (let fc1 = Linear_init 784 512 (rng 0);
          fc2 = Linear_init 512 256 (rng 1);
          fc3 = Linear_init 256 128 (rng 2);
          fc4 = Linear_init 128 64 (rng 3)
      in ff_Encoder fc1 fc2 fc3 fc4)"

fun ff_Encoder_forward :: "ff_Encoder \<Rightarrow> matrix \<Rightarrow> matrix option" where
  "ff_Encoder_forward (ff_Encoder fc1 fc2 fc3 fc4) x =
     do {
       x \<leftarrow> map_option relu (Linear_forward fc1 x);
       x \<leftarrow> map_option relu (Linear_forward fc2 x);
       x \<leftarrow> map_option relu (Linear_forward fc3 x);
       x \<leftarrow> map_option relu (Linear_forward fc4 x);
       Some x
     }"

definition ff_Decoder_init :: "(nat \<Rightarrow> sampler) \<Rightarrow> ff_Decoder" where
  "ff_Decoder_init rng =
     (let fc1 = Linear_init 64 128 (rng 0);
          fc2 = Linear_init 128 256 (rng 1);
          fc3 = Linear_init 256 512 (rng 2);
          fc4 = Linear_init 512 784 (rng 3)
      in ff_Decoder fc1 fc2 fc3 fc4)"

fun ff_Decoder_forward :: "ff_Decoder \<Rightarrow> matrix \<Rightarrow> matrix option" where
  "ff_Decoder_forward (ff_Decoder fc1 fc2 fc3 fc4) x =
     do {
       x \<leftarrow> map_option relu (Linear_forward fc1 x);
       x \<leftarrow> map_option relu (Linear_forward fc2 x);
       x \<leftarrow> map_option relu (Linear_forward fc3 x);
       x \<leftarrow> map_option sigmoid (Linear_forward fc4 x);
       Some x
     }"

definition ff_Autoencoder_init :: "(nat \<Rightarrow> sampler) \<Rightarrow> ff_Autoencoder" where
  "ff_Autoencoder_init rng =
     (let encoder = ff_Encoder_init (\<lambda>k. rng k);
          decoder = ff_Decoder_init (\<lambda>k. rng (4 + k))
      in ff_Autoencoder encoder decoder)"

fun ff_Autoencoder_forward :: "ff_Autoencoder \<Rightarrow> matrix \<Rightarrow> matrix option" where
  "ff_Autoencoder_forward (ff_Autoencoder encoder decoder) x =
     do {
       x \<leftarrow> ff_Encoder_forward encoder x;
       x \<leftarrow> ff_Decoder_forward decoder x;
       Some x
     }"

text \<open>\<^verbatim>\<open>data.view(data.size(0), -1)\<close>, as \<^verbatim>\<open>train\<close> and \<^verbatim>\<open>test\<close> apply it to each batch
  before the model is called.\<close>

definition ff_flatten :: "images \<Rightarrow> matrix" where
  "ff_flatten data = map (\<lambda>image. concat (concat image)) data"

section \<open>The training scripts: what they share\<close>

text \<open>
  A \<^verbatim>\<open>for\<close> loop over a list: the body is run on each element in turn from the state
  the previous run left, and an exception ends the loop. The result lists the state
  after each completed run of the body, and the exception if one was raised.
\<close>

fun for_each :: "('s \<Rightarrow> 'b \<Rightarrow> error + 's) \<Rightarrow> 's \<Rightarrow> 'b list \<Rightarrow> 's list \<times> error option" where
  "for_each body s [] = ([], None)"
| "for_each body s (b # bs) =
     (case body s b of
        Inl e \<Rightarrow> ([], Some e)
      | Inr s' \<Rightarrow> (case for_each body s' bs of (ss, r) \<Rightarrow> (s' # ss, r)))"

text \<open>The state a loop ends in, or its exception.\<close>

definition loop_result :: "'s \<Rightarrow> 's list \<times> error option \<Rightarrow> error + 's" where
  "loop_result s run =
     (case run of
        (ss, Some e) \<Rightarrow> Inl e
      | (ss, None) \<Rightarrow> Inr (last (s # ss)))"

text \<open>Python's \<^verbatim>\<open>str\<close> of an integer, as the f-strings of the scripts apply it.\<close>

definition digit :: "nat \<Rightarrow> char" where
  "digit n = ''0123456789'' ! n"

function str_nat :: "nat \<Rightarrow> string" where
  "str_nat n = (if n < 10 then [digit n] else str_nat (n div 10) @ [digit (n mod 10)])"
  by pat_completeness auto
termination
  by (relation "measure (\<lambda>n. n)") auto

declare str_nat.simps [simp del]

definition str_int :: "int \<Rightarrow> string" where
  "str_int i = (if i < 0 then CHR ''-'' # str_nat (nat (- i)) else str_nat (nat i))"

text \<open>
  The model with its parameter values \<open>params\<close>, the optimizer, and the mode flag that
  \<^verbatim>\<open>model.train()\<close> and \<^verbatim>\<open>model.eval()\<close> set.
\<close>

record ('p, 'o) learner =
  params :: 'p
  optimizer :: 'o
  training :: bool

text \<open>What the scripts write: \<^verbatim>\<open>save_image(tensor, path, nrow)\<close> and
  \<^verbatim>\<open>torch.save(model.state_dict(), path)\<close>. The disk is the list of the files written,
  in the order of the writes.\<close>

datatype ('p, 't) payload = Image 't nat | StateDict 'p

type_synonym ('p, 't) disk = "(string \<times> ('p, 't) payload) list"

type_synonym 't batch = "'t \<times> int list"

text \<open>
  The collaborators of the three CIFAR scripts: the library at given parameter values
  and mode; the elements of a tensor; \<^verbatim>\<open>loss.backward()\<close> followed by
  \<^verbatim>\<open>optimizer.step()\<close> (for a batch, and for a batch with its labels); the fresh
  parameter values of a constructed model; \<^verbatim>\<open>optim.Adam(model.parameters())\<close>;
  \<^verbatim>\<open>torch.cuda.is_available()\<close>; and \<^verbatim>\<open>get_cifar10\<close> of the module
  \<^verbatim>\<open>dataloaders\<close>, whose two loaders give the batches of each epoch.
\<close>

record ('p, 'o, 't) collaborators =
  lib :: "'p \<Rightarrow> bool \<Rightarrow> 't torch"
  elements :: "'t \<Rightarrow> real list"
  backward_step :: "'o \<Rightarrow> 'p \<Rightarrow> 't \<Rightarrow> 'o \<times> 'p"
  backward_step_labels :: "'o \<Rightarrow> 'p \<Rightarrow> 't \<Rightarrow> int list \<Rightarrow> 'o \<times> 'p"
  initial_params :: 'p
  Adam :: "'p \<Rightarrow> 'o"
  cuda_is_available :: bool
  get_cifar10 :: "string \<Rightarrow> bool \<Rightarrow> nat \<Rightarrow> nat \<Rightarrow> (int \<Rightarrow> 't batch list) \<times> (int \<Rightarrow> 't batch list)"

text \<open>\<^verbatim>\<open>F.mse_loss(output, data)\<close>: the mean of the squared differences.\<close>

definition mse_loss :: "('p, 'o, 't) collaborators \<Rightarrow> 't \<Rightarrow> 't \<Rightarrow> real" where
  "mse_loss E output data =
     sum_list (map (\<lambda>(a, b). (a - b)\<^sup>2) (zip (elements E output) (elements E data)))
       / real (length (elements E output))"

section \<open>\<^verbatim>\<open>convolutional_cifar.py\<close>: \<^verbatim>\<open>train\<close>, \<^verbatim>\<open>test\<close>, \<^verbatim>\<open>main\<close>\<close>

text \<open>The body of the loop of \<^verbatim>\<open>train\<close>, on the state \<open>(learner, train_loss)\<close>.\<close>

definition conv_train_body ::
  "('p, 'o, 't) collaborators \<Rightarrow> conv_Autoencoder \<Rightarrow>
   ('p, 'o) learner \<times> real \<Rightarrow> nat \<times> 't batch \<Rightarrow> error + ('p, 'o) learner \<times> real" where
  "conv_train_body E model s b =
     (case (s, b) of ((st, train_loss), (i, data, _)) \<Rightarrow>
        (let output = conv_Autoencoder_forward (lib E (params st) (training st)) model data;
             loss = mse_loss E output data;
             (opt, p) = backward_step E (optimizer st) (params st) data;
             st = st\<lparr>params := p, optimizer := opt\<rparr>;
             train_loss = train_loss + loss
         in Inr (st, train_loss)))"

definition conv_train_loop ::
  "('p, 'o, 't) collaborators \<Rightarrow> conv_Autoencoder \<Rightarrow> ('p, 'o) learner \<Rightarrow> 't batch list \<Rightarrow>
   (('p, 'o) learner \<times> real) list \<times> error option" where
  "conv_train_loop E model st train_loader =
     (let st = st\<lparr>training := True\<rparr>;
          train_loss = 0
      in for_each (conv_train_body E model) (st, train_loss) (enumerate 0 train_loader))"

definition conv_train ::
  "('p, 'o, 't) collaborators \<Rightarrow> conv_Autoencoder \<Rightarrow> ('p, 'o) learner \<Rightarrow> 't batch list \<Rightarrow> int \<Rightarrow>
   error + ('p, 'o) learner" where
  "conv_train E model st train_loader epoch =
     map_sum id fst
       (loop_result (st\<lparr>training := True\<rparr>, 0) (conv_train_loop E model st train_loader))"

text \<open>The body of the loop of \<^verbatim>\<open>test\<close>, on the state \<open>(disk, test_loss)\<close>.
  \<^verbatim>\<open>view(100, 3, 32, 32)\<close> raises unless the tensor has that many elements.\<close>

definition conv_test_body ::
  "('p, 'o, 't) collaborators \<Rightarrow> conv_Autoencoder \<Rightarrow> ('p, 'o) learner \<Rightarrow> string \<Rightarrow> int \<Rightarrow>
   ('p, 't) disk \<times> real \<Rightarrow> nat \<times> 't batch \<Rightarrow> error + ('p, 't) disk \<times> real" where
  "conv_test_body E model st folder epoch s b =
     (case (s, b) of ((disk, test_loss), (i, data, _)) \<Rightarrow>
        (let T = lib E (params st) (training st);
             output = conv_Autoencoder_forward T model data;
             test_loss = test_loss + mse_loss E output data
         in if i = 0
            then
              if length (elements E output) = 100 * 3 * 32 * 32
                 \<and> length (elements E data) = 100 * 3 * 32 * 32
              then
                (let output = torch_view T [100, 3, 32, 32] output;
                     data = torch_view T [100, 3, 32, 32] data;
                     disk = disk @ [(folder @ ''/'' @ str_int epoch @ ''.png'', Image output 10)];
                     disk = disk @ [(folder @ ''/baseline'' @ str_int epoch @ ''.png'', Image data 10)]
                 in Inr (disk, test_loss))
              else Inl RuntimeError
            else Inr (disk, test_loss)))"

definition conv_test ::
  "('p, 'o, 't) collaborators \<Rightarrow> conv_Autoencoder \<Rightarrow> ('p, 'o) learner \<Rightarrow> ('p, 't) disk \<Rightarrow>
   't batch list \<Rightarrow> string \<Rightarrow> int \<Rightarrow> error + ('p, 'o) learner \<times> ('p, 't) disk" where
  "conv_test E model st disk test_loader folder epoch =
     (let st = st\<lparr>training := False\<rparr>;
          test_loss = 0
      in map_sum id (\<lambda>(disk, test_loss). (st, disk))
           (loop_result (disk, test_loss)
              (for_each (conv_test_body E model st folder epoch) (disk, test_loss)
                 (enumerate 0 test_loader))))"

text \<open>The body of the loop over the epochs in \<^verbatim>\<open>main\<close>, and \<^verbatim>\<open>main\<close>.\<close>

definition conv_main_body ::
  "('p, 'o, 't) collaborators \<Rightarrow> conv_Autoencoder \<Rightarrow> (int \<Rightarrow> 't batch list) \<Rightarrow> (int \<Rightarrow> 't batch list) \<Rightarrow>
   string \<Rightarrow> bool \<Rightarrow> ('p, 'o) learner \<times> ('p, 't) disk \<Rightarrow> int \<Rightarrow>
   error + ('p, 'o) learner \<times> ('p, 't) disk" where
  "conv_main_body E model train_loader test_loader folder save_model s epoch =
     (case s of (st, disk) \<Rightarrow>
        (case conv_train E model st (train_loader epoch) epoch of
           Inl e \<Rightarrow> Inl e
         | Inr st \<Rightarrow>
             (case conv_test E model st disk (test_loader epoch) folder epoch of
                Inl e \<Rightarrow> Inl e
              | Inr (st, disk) \<Rightarrow>
                  if save_model
                  then Inr (st, disk @ [(folder @ ''/'' @ str_int epoch @ ''.pt'', StateDict (params st))])
                  else Inr (st, disk))))"

definition conv_main ::
  "('p, 'o, 't) collaborators \<Rightarrow> ('p, 't) disk \<Rightarrow> error + ('p, 'o) learner \<times> ('p, 't) disk" where
  "conv_main E disk =
     (let batch_size = 128;
          test_batch_size = 100;
          epochs = 20;
          save_model = True;
          folder = ''convolutional_cifar'';
          use_cuda = cuda_is_available E;
          model = conv_Autoencoder_init;
          st = \<lparr>params = initial_params E, optimizer = Adam E (initial_params E), training = True\<rparr>;
          path = ''data'';
          (train_loader, test_loader) = get_cifar10 E path use_cuda batch_size test_batch_size
      in loop_result (st, disk)
           (for_each (conv_main_body E model train_loader test_loader folder save_model)
              (st, disk) [1..epochs]))"

section \<open>\<^verbatim>\<open>resnet_cifar.py\<close>: \<^verbatim>\<open>train\<close>, \<^verbatim>\<open>test\<close>, \<^verbatim>\<open>main\<close>\<close>

text \<open>The body of the loop of \<^verbatim>\<open>train\<close>, on the state \<open>(learner, train_loss)\<close>.\<close>

definition res_train_body ::
  "('p, 'o, 't) collaborators \<Rightarrow> res_Autoencoder \<Rightarrow>
   ('p, 'o) learner \<times> real \<Rightarrow> nat \<times> 't batch \<Rightarrow> error + ('p, 'o) learner \<times> real" where
  "res_train_body E model s b =
     (case (s, b) of ((st, train_loss), (i, data, _)) \<Rightarrow>
        (let output = res_Autoencoder_forward (lib E (params st) (training st)) model data;
             loss = mse_loss E output data;
             (opt, p) = backward_step E (optimizer st) (params st) data;
             st = st\<lparr>params := p, optimizer := opt\<rparr>;
             train_loss = train_loss + loss
         in Inr (st, train_loss)))"

definition res_train_loop ::
  "('p, 'o, 't) collaborators \<Rightarrow> res_Autoencoder \<Rightarrow> ('p, 'o) learner \<Rightarrow> 't batch list \<Rightarrow>
   (('p, 'o) learner \<times> real) list \<times> error option" where
  "res_train_loop E model st train_loader =
     (let st = st\<lparr>training := True\<rparr>;
          train_loss = 0
      in for_each (res_train_body E model) (st, train_loss) (enumerate 0 train_loader))"

definition res_train ::
  "('p, 'o, 't) collaborators \<Rightarrow> res_Autoencoder \<Rightarrow> ('p, 'o) learner \<Rightarrow> 't batch list \<Rightarrow> int \<Rightarrow>
   error + ('p, 'o) learner" where
  "res_train E model st train_loader epoch =
     map_sum id fst
       (loop_result (st\<lparr>training := True\<rparr>, 0) (res_train_loop E model st train_loader))"

text \<open>The body of the loop of \<^verbatim>\<open>test\<close>, on the state \<open>(disk, test_loss)\<close>.
  \<^verbatim>\<open>view(100, 3, 32, 32)\<close> raises unless the tensor has that many elements.\<close>

definition res_test_body ::
  "('p, 'o, 't) collaborators \<Rightarrow> res_Autoencoder \<Rightarrow> ('p, 'o) learner \<Rightarrow> string \<Rightarrow> int \<Rightarrow>
   ('p, 't) disk \<times> real \<Rightarrow> nat \<times> 't batch \<Rightarrow> error + ('p, 't) disk \<times> real" where
  "res_test_body E model st folder epoch s b =
     (case (s, b) of ((disk, test_loss), (i, data, _)) \<Rightarrow>
        (let T = lib E (params st) (training st);
             output = res_Autoencoder_forward T model data;
             test_loss = test_loss + mse_loss E output data
         in if i = 0
            then
              if length (elements E output) = 100 * 3 * 32 * 32
                 \<and> length (elements E data) = 100 * 3 * 32 * 32
              then
                (let output = torch_view T [100, 3, 32, 32] output;
                     data = torch_view T [100, 3, 32, 32] data;
                     disk = disk @ [(folder @ ''/'' @ str_int epoch @ ''.png'', Image output 10)];
                     disk = disk @ [(folder @ ''/'' @ str_int epoch @ ''baseline.png'', Image data 10)]
                 in Inr (disk, test_loss))
              else Inl RuntimeError
            else Inr (disk, test_loss)))"

definition res_test ::
  "('p, 'o, 't) collaborators \<Rightarrow> res_Autoencoder \<Rightarrow> ('p, 'o) learner \<Rightarrow> ('p, 't) disk \<Rightarrow>
   't batch list \<Rightarrow> string \<Rightarrow> int \<Rightarrow> error + ('p, 'o) learner \<times> ('p, 't) disk" where
  "res_test E model st disk test_loader folder epoch =
     (let st = st\<lparr>training := False\<rparr>;
          test_loss = 0
      in map_sum id (\<lambda>(disk, test_loss). (st, disk))
           (loop_result (disk, test_loss)
              (for_each (res_test_body E model st folder epoch) (disk, test_loss)
                 (enumerate 0 test_loader))))"

text \<open>The body of the loop over the epochs in \<^verbatim>\<open>main\<close>, and \<^verbatim>\<open>main\<close>.\<close>

definition res_main_body ::
  "('p, 'o, 't) collaborators \<Rightarrow> res_Autoencoder \<Rightarrow> (int \<Rightarrow> 't batch list) \<Rightarrow> (int \<Rightarrow> 't batch list) \<Rightarrow>
   string \<Rightarrow> bool \<Rightarrow> ('p, 'o) learner \<times> ('p, 't) disk \<Rightarrow> int \<Rightarrow>
   error + ('p, 'o) learner \<times> ('p, 't) disk" where
  "res_main_body E model train_loader test_loader folder save_model s epoch =
     (case s of (st, disk) \<Rightarrow>
        (case res_train E model st (train_loader epoch) epoch of
           Inl e \<Rightarrow> Inl e
         | Inr st \<Rightarrow>
             (case res_test E model st disk (test_loader epoch) folder epoch of
                Inl e \<Rightarrow> Inl e
              | Inr (st, disk) \<Rightarrow>
                  if save_model
                  then Inr (st, disk @ [(folder @ ''/'' @ str_int epoch @ ''.pt'', StateDict (params st))])
                  else Inr (st, disk))))"

definition res_main ::
  "('p, 'o, 't) collaborators \<Rightarrow> int \<Rightarrow> ('p, 't) disk \<Rightarrow> error + ('p, 'o) learner \<times> ('p, 't) disk" where
  "res_main E bottleneck disk =
     (let batch_size = 128;
          test_batch_size = 100;
          epochs = 20;
          save_model = True;
          folder = ''residual_cifar_'' @ str_int bottleneck @ ''_bottle'';
          use_cuda = cuda_is_available E;
          model = res_Autoencoder_init bottleneck;
          st = \<lparr>params = initial_params E, optimizer = Adam E (initial_params E), training = True\<rparr>;
          path = ''data'';
          (train_loader, test_loader) = get_cifar10 E path use_cuda batch_size test_batch_size
      in loop_result (st, disk)
           (for_each (res_main_body E model train_loader test_loader folder save_model)
              (st, disk) [1..epochs]))"

section \<open>\<^verbatim>\<open>conditional_autoencoder.py\<close>: \<^verbatim>\<open>train\<close>, \<^verbatim>\<open>test\<close>, \<^verbatim>\<open>main\<close>\<close>

definition cond_train_body ::
  "('p, 'o, 't) collaborators \<Rightarrow> cond_Autoencoder \<Rightarrow>
   ('p, 'o) learner \<times> real \<Rightarrow> nat \<times> 't batch \<Rightarrow> error + ('p, 'o) learner \<times> real" where
  "cond_train_body E model s b =
     (case (s, b) of ((st, train_loss), (i, data, labels)) \<Rightarrow>
        (case cond_Autoencoder_conditional_forward (lib E (params st) (training st)) model data labels of
           Inl e \<Rightarrow> Inl e
         | Inr (output, _) \<Rightarrow>
             (let loss = mse_loss E output data;
                  (opt, p) = backward_step_labels E (optimizer st) (params st) data labels;
                  st = st\<lparr>params := p, optimizer := opt\<rparr>;
                  train_loss = train_loss + loss
              in Inr (st, train_loss))))"

definition cond_train_loop ::
  "('p, 'o, 't) collaborators \<Rightarrow> cond_Autoencoder \<Rightarrow> ('p, 'o) learner \<Rightarrow> 't batch list \<Rightarrow>
   (('p, 'o) learner \<times> real) list \<times> error option" where
  "cond_train_loop E model st train_loader =
     (let st = st\<lparr>training := True\<rparr>;
          train_loss = 0
      in for_each (cond_train_body E model) (st, train_loss) (enumerate 0 train_loader))"

definition cond_train ::
  "('p, 'o, 't) collaborators \<Rightarrow> cond_Autoencoder \<Rightarrow> ('p, 'o) learner \<Rightarrow> 't batch list \<Rightarrow> int \<Rightarrow>
   error + ('p, 'o) learner" where
  "cond_train E model st train_loader epoch =
     map_sum id fst
       (loop_result (st\<lparr>training := True\<rparr>, 0) (cond_train_loop E model st train_loader))"

definition cond_test_body ::
  "('p, 'o, 't) collaborators \<Rightarrow> cond_Autoencoder \<Rightarrow> ('p, 'o) learner \<Rightarrow> string \<Rightarrow> int \<Rightarrow>
   ('p, 't) disk \<times> real \<Rightarrow> nat \<times> 't batch \<Rightarrow> error + ('p, 't) disk \<times> real" where
  "cond_test_body E model st folder epoch s b =
     (case (s, b) of ((disk, test_loss), (i, data, labels)) \<Rightarrow>
        (let T = lib E (params st) (training st)
         in case cond_Autoencoder_conditional_forward T model data labels of
              Inl e \<Rightarrow> Inl e
            | Inr (output, _) \<Rightarrow>
                (let test_loss = test_loss + mse_loss E output data
                 in if i = 0
                    then
                      if length (elements E output) = 100 * 3 * 32 * 32
                         \<and> length (elements E data) = 100 * 3 * 32 * 32
                      then
                        (let output = torch_view T [100, 3, 32, 32] output;
                             data = torch_view T [100, 3, 32, 32] data;
                             disk = disk @ [(folder @ ''/'' @ str_int epoch @ ''.png'', Image output 10)];
                             disk = disk @ [(folder @ ''/'' @ str_int epoch @ ''baseline.png'', Image data 10)]
                         in Inr (disk, test_loss))
                      else Inl RuntimeError
                    else Inr (disk, test_loss))))"

definition cond_test ::
  "('p, 'o, 't) collaborators \<Rightarrow> cond_Autoencoder \<Rightarrow> ('p, 'o) learner \<Rightarrow> ('p, 't) disk \<Rightarrow>
   't batch list \<Rightarrow> string \<Rightarrow> int \<Rightarrow> error + ('p, 'o) learner \<times> ('p, 't) disk" where
  "cond_test E model st disk test_loader folder epoch =
     (let st = st\<lparr>training := False\<rparr>;
          test_loss = 0
      in map_sum id (\<lambda>(disk, test_loss). (st, disk))
           (loop_result (disk, test_loss)
              (for_each (cond_test_body E model st folder epoch) (disk, test_loss)
                 (enumerate 0 test_loader))))"

definition cond_main_body ::
  "('p, 'o, 't) collaborators \<Rightarrow> cond_Autoencoder \<Rightarrow> (int \<Rightarrow> 't batch list) \<Rightarrow> (int \<Rightarrow> 't batch list) \<Rightarrow>
   string \<Rightarrow> bool \<Rightarrow> ('p, 'o) learner \<times> ('p, 't) disk \<Rightarrow> int \<Rightarrow>
   error + ('p, 'o) learner \<times> ('p, 't) disk" where
  "cond_main_body E model train_loader test_loader folder save_model s epoch =
     (case s of (st, disk) \<Rightarrow>
        (case cond_train E model st (train_loader epoch) epoch of
           Inl e \<Rightarrow> Inl e
         | Inr st \<Rightarrow>
             (case cond_test E model st disk (test_loader epoch) folder epoch of
                Inl e \<Rightarrow> Inl e
              | Inr (st, disk) \<Rightarrow>
                  if save_model
                  then Inr (st, disk @ [(folder @ ''/'' @ str_int epoch @ ''.pt'', StateDict (params st))])
                  else Inr (st, disk))))"

definition cond_main ::
  "('p, 'o, 't) collaborators \<Rightarrow> ('p, 't) disk \<Rightarrow> error + ('p, 'o) learner \<times> ('p, 't) disk" where
  "cond_main E disk =
     (let batch_size = 64;
          test_batch_size = 100;
          epochs = 10;
          save_model = True;
          folder = ''conditional'';
          use_cuda = cuda_is_available E
      in case cond_Autoencoder_init of
           Inl e \<Rightarrow> Inl e
         | Inr model \<Rightarrow>
             (let st = \<lparr>params = initial_params E, optimizer = Adam E (initial_params E),
                        training = True\<rparr>;
                  path = ''data'';
                  (train_loader, test_loader) = get_cifar10 E path use_cuda batch_size test_batch_size
              in loop_result (st, disk)
                   (for_each (cond_main_body E model train_loader test_loader folder save_model)
                      (st, disk) [1..epochs])))"

section \<open>\<^verbatim>\<open>feedforward.py\<close>: \<^verbatim>\<open>train\<close>, \<^verbatim>\<open>test\<close>, \<^verbatim>\<open>main\<close>\<close>

text \<open>
  \<^verbatim>\<open>F.binary_cross_entropy(output, target)\<close>: the library refuses operands of different
  sizes and outputs outside \<open>[0, 1]\<close>, and bounds each logarithm below by \<open>-100\<close>.
\<close>

definition log_clamped :: "real \<Rightarrow> real" where
  "log_clamped v = (if v \<le> 0 then - 100 else max (ln v) (- 100))"

definition binary_cross_entropy :: "matrix \<Rightarrow> matrix \<Rightarrow> error + real" where
  "binary_cross_entropy output target =
     (if map length output = map length target
      then
        if list_all (list_all (\<lambda>v. 0 \<le> v \<and> v \<le> 1)) output
        then Inr (sum_list (map (\<lambda>(x, y). - (y * log_clamped x + (1 - y) * log_clamped (1 - x)))
                              (zip (concat output) (concat target)))
                    / real (length (concat output)))
        else Inl RuntimeError
      else Inl ValueError)"

text \<open>\<^verbatim>\<open>view(n, c, h, w)\<close> of a batch of vectors: the elements in storage order, cut
  into rows, channels and images; it raises unless the element count fits.\<close>

definition view_images :: "nat \<Rightarrow> nat \<Rightarrow> nat \<Rightarrow> nat \<Rightarrow> matrix \<Rightarrow> images option" where
  "view_images n c h w x =
     (let flat = concat x
      in if length flat = n * c * h * w
         then Some (map (\<lambda>i. map (\<lambda>j. map (\<lambda>r. take w (drop (((i * c + j) * h + r) * w) flat))
                                          [0..<h]) [0..<c]) [0..<n])
         else None)"

text \<open>The collaborators of the feedforward script; the model's parameter values are
  the weights and biases of its layers, so the model itself is the learner's \<open>params\<close>.\<close>

record 'o ff_collaborators =
  ff_backward_step :: "'o \<Rightarrow> ff_Autoencoder \<Rightarrow> matrix \<Rightarrow> 'o \<times> ff_Autoencoder"
  ff_rng :: "nat \<Rightarrow> sampler"
  ff_Adam :: "ff_Autoencoder \<Rightarrow> 'o"
  ff_cuda_is_available :: bool
  get_mnist :: "string \<Rightarrow> bool \<Rightarrow> nat \<Rightarrow> nat \<Rightarrow> (int \<Rightarrow> images batch list) \<times> (int \<Rightarrow> images batch list)"

definition ff_train_body ::
  "'o ff_collaborators \<Rightarrow>
   (ff_Autoencoder, 'o) learner \<times> real \<Rightarrow> nat \<times> images batch \<Rightarrow>
   error + (ff_Autoencoder, 'o) learner \<times> real" where
  "ff_train_body E s b =
     (case (s, b) of ((st, train_loss), (i, data, _)) \<Rightarrow>
        (let data = ff_flatten data
         in case ff_Autoencoder_forward (params st) data of
              None \<Rightarrow> Inl RuntimeError
            | Some output \<Rightarrow>
                (case binary_cross_entropy output data of
                   Inl e \<Rightarrow> Inl e
                 | Inr loss \<Rightarrow>
                     (let (opt, p) = ff_backward_step E (optimizer st) (params st) data;
                          st = st\<lparr>params := p, optimizer := opt\<rparr>;
                          train_loss = train_loss + loss
                      in Inr (st, train_loss)))))"

definition ff_train_loop ::
  "'o ff_collaborators \<Rightarrow> (ff_Autoencoder, 'o) learner \<Rightarrow> images batch list \<Rightarrow>
   ((ff_Autoencoder, 'o) learner \<times> real) list \<times> error option" where
  "ff_train_loop E st train_loader =
     (let st = st\<lparr>training := True\<rparr>;
          train_loss = 0
      in for_each (ff_train_body E) (st, train_loss) (enumerate 0 train_loader))"

definition ff_train ::
  "'o ff_collaborators \<Rightarrow> (ff_Autoencoder, 'o) learner \<Rightarrow> images batch list \<Rightarrow> int \<Rightarrow>
   error + (ff_Autoencoder, 'o) learner" where
  "ff_train E st train_loader epoch =
     map_sum id fst
       (loop_result (st\<lparr>training := True\<rparr>, 0) (ff_train_loop E st train_loader))"

definition ff_test_body ::
  "(ff_Autoencoder, 'o) learner \<Rightarrow> string \<Rightarrow> int \<Rightarrow>
   (ff_Autoencoder, images) disk \<times> real \<Rightarrow> nat \<times> images batch \<Rightarrow>
   error + (ff_Autoencoder, images) disk \<times> real" where
  "ff_test_body st folder epoch s b =
     (case (s, b) of ((disk, test_loss), (i, data, _)) \<Rightarrow>
        (let data = ff_flatten data
         in case ff_Autoencoder_forward (params st) data of
              None \<Rightarrow> Inl RuntimeError
            | Some output \<Rightarrow>
                (case binary_cross_entropy output data of
                   Inl e \<Rightarrow> Inl e
                 | Inr loss \<Rightarrow>
                     (let test_loss = test_loss + loss
                      in if i = 0
                         then
                           (case (view_images 100 1 28 28 output, view_images 100 1 28 28 data) of
                              (Some output, Some data) \<Rightarrow>
                                (let disk = disk @ [(folder @ ''/'' @ str_int epoch @ ''.png'',
                                                     Image output 10)];
                                     disk = disk @ [(folder @ ''/baseline'' @ str_int epoch @ ''.png'',
                                                     Image data 10)]
                                 in Inr (disk, test_loss))
                            | _ \<Rightarrow> Inl RuntimeError)
                         else Inr (disk, test_loss)))))"

definition ff_test ::
  "(ff_Autoencoder, 'o) learner \<Rightarrow> (ff_Autoencoder, images) disk \<Rightarrow>
   images batch list \<Rightarrow> string \<Rightarrow> int \<Rightarrow>
   error + (ff_Autoencoder, 'o) learner \<times> (ff_Autoencoder, images) disk" where
  "ff_test st disk test_loader folder epoch =
     (let st = st\<lparr>training := False\<rparr>;
          test_loss = 0
      in map_sum id (\<lambda>(disk, test_loss). (st, disk))
           (loop_result (disk, test_loss)
              (for_each (ff_test_body st folder epoch) (disk, test_loss)
                 (enumerate 0 test_loader))))"

definition ff_main_body ::
  "'o ff_collaborators \<Rightarrow> (int \<Rightarrow> images batch list) \<Rightarrow> (int \<Rightarrow> images batch list) \<Rightarrow>
   string \<Rightarrow> bool \<Rightarrow> (ff_Autoencoder, 'o) learner \<times> (ff_Autoencoder, images) disk \<Rightarrow> int \<Rightarrow>
   error + (ff_Autoencoder, 'o) learner \<times> (ff_Autoencoder, images) disk" where
  "ff_main_body E train_loader test_loader folder save_model s epoch =
     (case s of (st, disk) \<Rightarrow>
        (case ff_train E st (train_loader epoch) epoch of
           Inl e \<Rightarrow> Inl e
         | Inr st \<Rightarrow>
             (case ff_test st disk (test_loader epoch) folder epoch of
                Inl e \<Rightarrow> Inl e
              | Inr (st, disk) \<Rightarrow>
                  if save_model
                  then Inr (st, disk @ [(folder @ ''/'' @ str_int epoch @ ''.pt'', StateDict (params st))])
                  else Inr (st, disk))))"

definition ff_main ::
  "'o ff_collaborators \<Rightarrow> (ff_Autoencoder, images) disk \<Rightarrow>
   error + (ff_Autoencoder, 'o) learner \<times> (ff_Autoencoder, images) disk" where
  "ff_main E disk =
     (let batch_size = 64;
          test_batch_size = 100;
          epochs = 10;
          save_model = True;
          folder = ''feedforward'';
          use_cuda = ff_cuda_is_available E;
          model = ff_Autoencoder_init (ff_rng E);
          st = \<lparr>params = model, optimizer = ff_Adam E model, training = True\<rparr>;
          path = ''data'';
          (train_loader, test_loader) = get_mnist E path use_cuda batch_size test_batch_size
      in loop_result (st, disk)
           (for_each (ff_main_body E train_loader test_loader folder save_model)
              (st, disk) [1..epochs]))"

section \<open>Predicates used in the statements\<close>

text \<open>A batch of vectors of \<open>n\<close> entries each.\<close>

definition batch_of :: "nat \<Rightarrow> matrix \<Rightarrow> bool" where
  "batch_of n x = list_all (\<lambda>row. length row = n) x"

text \<open>A label vector for a batch of \<open>n\<close> examples, with the classes \<open>0\<close> to \<open>9\<close> of CIFAR-10.\<close>

definition labels_ok :: "nat \<Rightarrow> int list \<Rightarrow> bool" where
  "labels_ok n y = (length y = n \<and> list_all (\<lambda>c. 0 \<le> c \<and> c < 10) y)"

text \<open>Every element lies in the closed interval from \<open>0\<close> to \<open>1\<close>.\<close>

definition unit_range :: "matrix \<Rightarrow> bool" where
  "unit_range x = list_all (list_all (\<lambda>v. 0 \<le> v \<and> v \<le> 1)) x"

section \<open>A small world to run the scripts in\<close>

text \<open>
  Concrete collaborators, used to instantiate the statements below: tensors are shapes
  filled with zeros, the optimizer leaves the parameters alone, and each loader gives
  one training batch and two test batches per epoch.
\<close>

definition zero_elements :: "shape \<Rightarrow> real list" where
  "zero_elements x = (case x of Some xs \<Rightarrow> replicate (prod_list xs) 0 | None \<Rightarrow> [])"

definition zero_world :: "(unit, unit, shape) collaborators" where
  "zero_world =
     \<lparr> lib = (\<lambda>p mode. shapes mode),
       elements = zero_elements,
       backward_step = (\<lambda>opt p data. (opt, p)),
       backward_step_labels = (\<lambda>opt p data labels. (opt, p)),
       initial_params = (),
       Adam = (\<lambda>p. ()),
       cuda_is_available = False,
       get_cifar10 = (\<lambda>path use_cuda batch_size test_batch_size.
         (\<lambda>epoch. [(Some [batch_size, 3, 32, 32], replicate batch_size 0)],
          \<lambda>epoch. [(Some [test_batch_size, 3, 32, 32], replicate test_batch_size 0),
                   (Some [test_batch_size, 3, 32, 32], replicate test_batch_size 0)])) \<rparr>"

definition zero_images :: "nat \<Rightarrow> images" where
  "zero_images n = replicate n (replicate 1 (replicate 28 (replicate 28 0)))"

definition zero_sampler :: "nat \<Rightarrow> sampler" where
  "zero_sampler k = (\<lambda>r c. 0, \<lambda>r. 0)"

definition ff_zero_world :: "unit ff_collaborators" where
  "ff_zero_world =
     \<lparr> ff_backward_step = (\<lambda>opt model data. (opt, model)),
       ff_rng = zero_sampler,
       ff_Adam = (\<lambda>model. ()),
       ff_cuda_is_available = False,
       get_mnist = (\<lambda>path use_cuda batch_size test_batch_size.
         (\<lambda>epoch. [(zero_images batch_size, replicate batch_size 0)],
          \<lambda>epoch. [(zero_images test_batch_size, replicate test_batch_size 0),
                   (zero_images test_batch_size, replicate test_batch_size 0)])) \<rparr>"

definition start :: "(unit, unit) learner" where
  "start = \<lparr>params = (), optimizer = (), training = True\<rparr>"

section \<open>Shape lemmas\<close>

lemma shapes_sel:
  "nn_Conv2d (shapes mode) = conv2d_shape"
  "nn_ConvTranspose2d (shapes mode) = conv_transpose2d_shape"
  "nn_BatchNorm2d (shapes mode) = batch_norm2d_shape mode"
  "nn_Embedding (shapes mode) = embedding_shape"
  "F_relu (shapes mode) = (\<lambda>x. x)"
  "F_elu (shapes mode) = (\<lambda>x. x)"
  "torch_tanh (shapes mode) = (\<lambda>x. x)"
  "torch_add (shapes mode) = broadcast_shape"
  "torch_mul (shapes mode) = broadcast_shape"
  "torch_chunk2 (shapes mode) = chunk2_shape"
  "torch_view (shapes mode) = view_shape"
  "torch_size (shapes mode) = size_shape"
  by (simp_all add: shapes_def)

lemma broadcast_rev_same: "broadcast_rev xs xs = Some xs"
  by (induction xs) simp_all

lemma broadcast_shape_same: "broadcast_shape (Some xs) (Some xs) = Some xs"
  by (simp add: broadcast_shape_def broadcast_rev_same)

lemma conv_same_shape:
  "0 < h \<Longrightarrow> 0 < w \<Longrightarrow>
   conv2d_shape i out 3 (Suc 0) (Suc 0) b (Some [n, i, h, w]) = Some [n, out, h, w]"
  by (simp add: conv2d_shape_def)

lemma conv_down_shape:
  "3 \<le> h \<Longrightarrow> 3 \<le> w \<Longrightarrow>
   conv2d_shape i out 3 2 0 b (Some [n, i, h, w])
     = Some [n, out, (h - 3) div 2 + 1, (w - 3) div 2 + 1]"
  by (simp add: conv2d_shape_def)

lemma conv_up_shape:
  "0 < h \<Longrightarrow> 0 < w \<Longrightarrow> op < 2 \<Longrightarrow>
   conv_transpose2d_shape i out 3 2 op (Some [n, i, h, w])
     = Some [n, out, (h - 1) * 2 + 3 + op, (w - 1) * 2 + 3 + op]"
  by (simp add: conv_transpose2d_shape_def)

lemma batch_norm2d_shape_same:
  "\<not> (mode \<and> n * h * w = 1) \<Longrightarrow>
   batch_norm2d_shape mode f a (Some [n, f, h, w]) = Some [n, f, h, w]"
  by (auto simp add: batch_norm2d_shape_def)

lemma batch_norm2d_shape_single:
  "batch_norm2d_shape True f a (Some [1, f, 1, 1]) = None"
  by (simp add: batch_norm2d_shape_def)

lemma several_values: "1 < h \<Longrightarrow> \<not> (mode \<and> n * h * w = (1::nat))"
  by auto

lemma conv_roundtrip:
  "conv_Autoencoder_forward (shapes mode) conv_Autoencoder_init (Some [n, 3, 32, 32]) = Some [n, 3, 32, 32]"
  by (simp add: conv_Autoencoder_init_def conv_Encoder_init_def conv_Decoder_init_def shapes_sel
      conv_down_shape conv_up_shape)

lemma res_BasicBlock_shape:
  "0 < h \<Longrightarrow> 0 < w \<Longrightarrow> \<not> (mode \<and> n * h * w = 1) \<Longrightarrow>
   forward (shapes mode) (res_BasicBlock_init f) (Some [n, f, h, w]) = Some [n, f, h, w]"
  by (simp add: res_BasicBlock_init_def shapes_sel conv_same_shape batch_norm2d_shape_same
      broadcast_shape_same)

lemma res_ELU_BatchNorm2d_shape:
  "\<not> (mode \<and> n * h * w = 1) \<Longrightarrow>
   forward (shapes mode) (res_ELU_BatchNorm2d_init f) (Some [n, f, h, w]) = Some [n, f, h, w]"
  by (simp add: res_ELU_BatchNorm2d_init_def shapes_sel batch_norm2d_shape_same)

lemma res_BiggerBlock_shape:
  "0 < h \<Longrightarrow> 0 < w \<Longrightarrow> \<not> (mode \<and> n * h * w = 1) \<Longrightarrow>
   forward (shapes mode) (res_BiggerBlock_init f) (Some [n, f, h, w]) = Some [n, f, h, w]"
  by (simp add: res_BiggerBlock_init_def res_BasicBlock_shape broadcast_shape_same
      shapes_sel batch_norm2d_shape_same)

lemma res_encoder_shape:
  "forward (shapes mode) res_ResidualEncoder_init (Some [n, 3, 32, 32]) = Some [n, 256, 1, 1]"
  by (simp add: res_ResidualEncoder_init_def res_BiggerBlock_shape res_ELU_BatchNorm2d_shape
      shapes_sel conv_same_shape conv_down_shape several_values)

lemma res_decoder_shape:
  "\<not> (mode \<and> n = 1) \<Longrightarrow>
   forward (shapes mode) res_ResidualDecoder_init (Some [n, 256, 1, 1]) = Some [n, 3, 32, 32]"
  by (simp add: res_ResidualDecoder_init_def res_BiggerBlock_shape res_ELU_BatchNorm2d_shape
      shapes_sel conv_same_shape conv_up_shape batch_norm2d_shape_same several_values)

lemma res_BasicBlock_None: "forward (shapes mode) (res_BasicBlock_init f) None = None"
  by (simp add: res_BasicBlock_init_def shapes_sel broadcast_shape_def)

lemma res_ELU_BatchNorm2d_None: "forward (shapes mode) (res_ELU_BatchNorm2d_init f) None = None"
  by (simp add: res_ELU_BatchNorm2d_init_def shapes_sel batch_norm2d_shape_def)

lemma res_BiggerBlock_None: "forward (shapes mode) (res_BiggerBlock_init f) None = None"
  by (simp add: res_BiggerBlock_init_def shapes_sel broadcast_shape_def)

lemma res_decoder_single:
  "forward (shapes True) res_ResidualDecoder_init (Some [1, 256, 1, 1]) = None"
  by (simp add: res_ResidualDecoder_init_def shapes_sel batch_norm2d_shape_single [unfolded One_nat_def]
      res_BiggerBlock_None res_ELU_BatchNorm2d_None
      conv_transpose2d_shape_def conv2d_shape_def)

lemma res_roundtrip:
  "\<not> (mode \<and> n = 1) \<Longrightarrow>
   res_Autoencoder_forward (shapes mode) (res_Autoencoder_init b) (Some [n, 3, 32, 32])
     = Some [n, 3, 32, 32]"
  by (simp add: res_Autoencoder_init_def res_encoder_shape res_decoder_shape [unfolded One_nat_def])

lemma res_single_image_training:
  "res_Autoencoder_forward (shapes True) (res_Autoencoder_init b) (Some [1, 3, 32, 32]) = None"
  by (simp add: res_Autoencoder_init_def res_encoder_shape res_decoder_single [unfolded One_nat_def])

subsection \<open>The conditional network\<close>

lemma view_label_shape:
  "0 < f \<Longrightarrow> view_shape [-1, int f, 1, 1] (Some [n, f]) = Some [n, f, 1, 1]"
  by (simp add: view_shape_def Let_def)

lemma chunk2_label_shape:
  "0 < f \<Longrightarrow> chunk2_shape (Suc 0) (Some [n, f * 2]) = (Some [n, f], Some [n, f])"
  by (simp add: chunk2_shape_def)

lemma broadcast_scale_shape:
  "broadcast_shape (Some [n, f, Suc 0, Suc 0]) (Some [n, f, h, w]) = Some [n, f, h, w]"
  by (simp add: broadcast_shape_def)

lemma broadcast_shift_shape:
  "broadcast_shape (Some [n, f, h, w]) (Some [n, f, Suc 0, Suc 0]) = Some [n, f, h, w]"
  by (simp add: broadcast_shape_def)

lemma cbn_shape:
  "0 < f \<Longrightarrow> labels_ok n y \<Longrightarrow> \<not> (mode \<and> n * h * w = 1) \<Longrightarrow>
   cond_ConditionalBatchNorm2d_forward (shapes mode) (cond_ConditionalBatchNorm2d_init f 10)
     (Some [n, f, h, w]) y = (Some [n, f, h, w], [y])"
  by (simp add: cond_ConditionalBatchNorm2d_init_def shapes_sel batch_norm2d_shape_same
      embedding_shape_def labels_ok_def chunk2_label_shape view_label_shape
      broadcast_scale_shape broadcast_shift_shape)

lemma cond_BasicBlock_shape:
  "0 < f \<Longrightarrow> 0 < h \<Longrightarrow> 0 < w \<Longrightarrow> labels_ok n y \<Longrightarrow> \<not> (mode \<and> n * h * w = 1) \<Longrightarrow>
   cond_BasicBlock_conditional_forward (shapes mode) (cond_BasicBlock_init f) (Some [n, f, h, w]) y
     = (Some [n, f, h, w], [y, y])"
  by (simp add: cond_BasicBlock_init_def cbn_shape shapes_sel conv_same_shape broadcast_shape_same)

lemma cond_ELU_BatchNorm2d_shape:
  "0 < f \<Longrightarrow> labels_ok n y \<Longrightarrow> \<not> (mode \<and> n * h * w = 1) \<Longrightarrow>
   cond_ELU_BatchNorm2d_conditional_forward (shapes mode) (cond_ELU_BatchNorm2d_init f) (Some [n, f, h, w]) y
     = (Some [n, f, h, w], [y])"
  by (simp add: cond_ELU_BatchNorm2d_init_def cbn_shape shapes_sel)

lemma cond_encoder_shape:
  "labels_ok n y \<Longrightarrow> cond_ResidualEncoder_init [64, 128, 256, 512, 1024] = Inr e \<Longrightarrow>
   fst (cond_ResidualEncoder_conditional_forward (shapes mode) e (Some [n, 3, 32, 32]) y)
     = Some [n, 1024, 1, 1]"
  by (auto simp add: cond_ResidualEncoder_init_def cond_BasicBlock_shape cond_ELU_BatchNorm2d_shape
      shapes_sel conv_same_shape conv_down_shape several_values)

lemma cond_decoder_shape:
  "labels_ok n y \<Longrightarrow> cond_ResidualDecoder_init [64, 128, 256, 512, 1024] = Inr d \<Longrightarrow>
   fst (cond_ResidualDecoder_conditional_forward (shapes mode) d (Some [n, 1024, Suc 0, Suc 0]) y)
     = Some [n, 3, 32, 32]"
  by (auto simp add: cond_ResidualDecoder_init_def cond_BasicBlock_shape cond_ELU_BatchNorm2d_shape
      shapes_sel conv_same_shape conv_up_shape several_values)

lemma labels_ok_zeros: "labels_ok n (zeros_long n)"
  by (simp add: labels_ok_def zeros_long_def list_all_iff)

lemma cond_init_parts:
  "\<exists>e d. cond_ResidualEncoder_init [64, 128, 256, 512, 1024] = Inr e
       \<and> cond_ResidualDecoder_init [64, 128, 256, 512, 1024] = Inr d
       \<and> cond_Autoencoder_init = Inr (cond_Autoencoder e d)"
  by (simp add: cond_Autoencoder_init_def cond_ResidualEncoder_init_def
      cond_ResidualDecoder_init_def Let_def)

lemma cond_conditional_roundtrip:
  assumes "labels_ok n y"
  shows "\<exists>m. cond_Autoencoder_init = Inr m
     \<and> map_sum id fst (cond_Autoencoder_conditional_forward (shapes mode) m (Some [n, 3, 32, 32]) y)
         = Inr (Some [n, 3, 32, 32])"
proof -
  obtain e d where e: "cond_ResidualEncoder_init [64, 128, 256, 512, 1024] = Inr e"
    and d: "cond_ResidualDecoder_init [64, 128, 256, 512, 1024] = Inr d"
    and m: "cond_Autoencoder_init = Inr (cond_Autoencoder e d)"
    using cond_init_parts by blast
  have enc: "fst (cond_ResidualEncoder_conditional_forward (shapes mode) e (Some [n, 3, 32, 32]) (zeros_long n))
      = Some [n, 1024, 1, 1]"
    using cond_encoder_shape [OF labels_ok_zeros e] .
  have dec: "fst (cond_ResidualDecoder_conditional_forward (shapes mode) d (Some [n, 1024, Suc 0, Suc 0]) y)
      = Some [n, 3, 32, 32]"
    using cond_decoder_shape [OF assms d] .
  have "map_sum id fst (cond_Autoencoder_conditional_forward (shapes mode) (cond_Autoencoder e d)
          (Some [n, 3, 32, 32]) y) = Inr (Some [n, 3, 32, 32])"
    using enc dec
    by (simp add: cond_ResidualEncoder_forward_def shapes_sel size_shape_def split_def)
  with m show ?thesis by blast
qed

lemma cond_roundtrip:
  "\<exists>m. cond_Autoencoder_init = Inr m
     \<and> map_sum id fst (cond_Autoencoder_forward (shapes mode) m (Some [n, 3, 32, 32]))
         = Inr (Some [n, 3, 32, 32])"
  using cond_conditional_roundtrip [OF labels_ok_zeros, where n = n and mode = mode]
  by (simp add: cond_Autoencoder_forward_def shapes_sel size_shape_def)

section \<open>Labels reaching the normalization layers\<close>

lemma cbn_labels: "snd (cond_ConditionalBatchNorm2d_forward T bn x y) = [y]"
  by (cases bn; cases "case bn of ConditionalBatchNorm2d f b e \<Rightarrow> e") (simp add: split_def Let_def)

lemma cond_BasicBlock_labels: "snd (cond_BasicBlock_conditional_forward T b x y) = [y, y]"
  by (cases b) (simp add: split_def Let_def cbn_labels)

lemma cond_ELU_BatchNorm2d_labels: "snd (cond_ELU_BatchNorm2d_conditional_forward T b x y) = [y]"
  by (cases b) (simp add: split_def Let_def cbn_labels)

lemma cond_encoder_labels:
  "snd (cond_ResidualEncoder_conditional_forward T e x y) = replicate 12 y"
  by (cases e)
    (simp add: split_def Let_def cond_BasicBlock_labels cond_ELU_BatchNorm2d_labels numeral_eq_Suc)

lemma cond_decoder_labels:
  "snd (cond_ResidualDecoder_conditional_forward T d x y) = replicate 12 y"
  by (cases d)
    (simp add: split_def Let_def cond_BasicBlock_labels cond_ELU_BatchNorm2d_labels numeral_eq_Suc)

lemma cond_autoencoder_labels:
  "torch_size T x = n # rest \<Longrightarrow>
   map_sum id snd (cond_Autoencoder_conditional_forward T m x y)
     = Inr (replicate 12 (zeros_long n) @ replicate 12 y)"
  by (cases m)
    (simp add: cond_ResidualEncoder_forward_def split_def Let_def cond_encoder_labels
      cond_decoder_labels)

section \<open>The feedforward network\<close>

lemma Linear_init_forward:
  "batch_of i x \<Longrightarrow>
   \<exists>y. Linear_forward (Linear_init i out s) x = Some y \<and> length y = length x \<and> batch_of out y"
  by (cases s) (simp add: Linear_init_def batch_of_def list_all_iff)

lemma relu_batch: "batch_of n x \<Longrightarrow> batch_of n (relu x)"
  by (simp add: batch_of_def relu_def list_all_iff)

lemma sigmoid_batch: "batch_of n x \<Longrightarrow> batch_of n (sigmoid x)"
  by (simp add: batch_of_def sigmoid_def list_all_iff)

lemma relu_length: "length (relu x) = length x"
  by (simp add: relu_def)

lemma sigmoid_length: "length (sigmoid x) = length x"
  by (simp add: sigmoid_def)

lemma sigmoid_range: "unit_range (sigmoid x)"
proof -
  have "0 \<le> 1 / (1 + exp (- v)) \<and> 1 / (1 + exp (- v)) \<le> 1" for v :: real
  proof -
    have "0 < exp (- v)" by simp
    then show ?thesis by (simp add: add_pos_pos divide_le_eq)
  qed
  then show ?thesis by (simp add: sigmoid_def unit_range_def list_all_iff)
qed

lemma ff_layer_relu:
  "batch_of i x \<Longrightarrow>
   \<exists>y. map_option relu (Linear_forward (Linear_init i out s) x) = Some y
        \<and> length y = length x \<and> batch_of out y"
  using Linear_init_forward [of i x out s] by (auto simp: relu_batch relu_length)

lemma ff_layer_sigmoid:
  "batch_of i x \<Longrightarrow>
   \<exists>y. map_option sigmoid (Linear_forward (Linear_init i out s) x) = Some y
        \<and> length y = length x \<and> batch_of out y \<and> unit_range y"
  using Linear_init_forward [of i x out s]
  by (auto simp: sigmoid_batch sigmoid_length sigmoid_range)

lemma ff_encoder_shape:
  assumes "batch_of 784 x"
  shows "\<exists>y. ff_Encoder_forward (ff_Encoder_init rng) x = Some y \<and> length y = length x
            \<and> batch_of 64 y"
proof -
  obtain x1 where 1: "map_option relu (Linear_forward (Linear_init 784 512 (rng 0)) x) = Some x1"
      "length x1 = length x" "batch_of 512 x1"
    using ff_layer_relu [OF assms] by blast
  obtain x2 where 2: "map_option relu (Linear_forward (Linear_init 512 256 (rng 1)) x1) = Some x2"
      "length x2 = length x1" "batch_of 256 x2"
    using ff_layer_relu [OF 1(3)] by blast
  obtain x3 where 3: "map_option relu (Linear_forward (Linear_init 256 128 (rng 2)) x2) = Some x3"
      "length x3 = length x2" "batch_of 128 x3"
    using ff_layer_relu [OF 2(3)] by blast
  obtain x4 where 4: "map_option relu (Linear_forward (Linear_init 128 64 (rng 3)) x3) = Some x4"
      "length x4 = length x3" "batch_of 64 x4"
    using ff_layer_relu [OF 3(3)] by blast
  show ?thesis
    unfolding ff_Encoder_init_def Let_def ff_Encoder_forward.simps
    by (simp only: 1 2 3 4 Option.bind.bind_lunit One_nat_def [symmetric]) (simp add: 1 2 3 4)
qed

lemma ff_decoder_shape:
  assumes "batch_of 64 x"
  shows "\<exists>y. ff_Decoder_forward (ff_Decoder_init rng) x = Some y \<and> length y = length x
            \<and> batch_of 784 y \<and> unit_range y"
proof -
  obtain x1 where 1: "map_option relu (Linear_forward (Linear_init 64 128 (rng 0)) x) = Some x1"
      "length x1 = length x" "batch_of 128 x1"
    using ff_layer_relu [OF assms] by blast
  obtain x2 where 2: "map_option relu (Linear_forward (Linear_init 128 256 (rng 1)) x1) = Some x2"
      "length x2 = length x1" "batch_of 256 x2"
    using ff_layer_relu [OF 1(3)] by blast
  obtain x3 where 3: "map_option relu (Linear_forward (Linear_init 256 512 (rng 2)) x2) = Some x3"
      "length x3 = length x2" "batch_of 512 x3"
    using ff_layer_relu [OF 2(3)] by blast
  obtain x4 where 4: "map_option sigmoid (Linear_forward (Linear_init 512 784 (rng 3)) x3) = Some x4"
      "length x4 = length x3" "batch_of 784 x4" "unit_range x4"
    using ff_layer_sigmoid [OF 3(3)] by blast
  show ?thesis
    unfolding ff_Decoder_init_def Let_def ff_Decoder_forward.simps
    by (simp only: 1 2 3 4 Option.bind.bind_lunit One_nat_def [symmetric]) (simp add: 1 2 3 4)
qed

lemma ff_autoencoder_shape:
  assumes "batch_of 784 x"
  shows "\<exists>y. ff_Autoencoder_forward (ff_Autoencoder_init rng) x = Some y \<and> length y = length x
            \<and> batch_of 784 y \<and> unit_range y"
proof -
  obtain z where z: "ff_Encoder_forward (ff_Encoder_init (\<lambda>k. rng k)) x = Some z"
      "length z = length x" "batch_of 64 z"
    using ff_encoder_shape [OF assms] by blast
  obtain y where y: "ff_Decoder_forward (ff_Decoder_init (\<lambda>k. rng (4 + k))) z = Some y"
      "length y = length z" "batch_of 784 y" "unit_range y"
    using ff_decoder_shape [OF z(3)] by blast
  show ?thesis
    unfolding ff_Autoencoder_init_def Let_def ff_Autoencoder_forward.simps
    by (simp only: z y Option.bind.bind_lunit) (simp add: z y)
qed

lemma ff_flatten_zeros:
  "batch_of 784 (ff_flatten (replicate n (replicate 1 (replicate 28 (replicate 28 0)))))"
  by (simp add: batch_of_def ff_flatten_def list_all_iff length_concat sum_list_replicate)

section \<open>The weights of the conditional normalization layer\<close>

lemma init_weight_length:
  "length (cond_ConditionalBatchNorm2d_init_weight normal uniform features classes) = classes"
  by (simp add: cond_ConditionalBatchNorm2d_init_weight_def zero_columns_def
      uniform_columns_def Embedding_weight_def)

lemma init_weight_row:
  assumes "c < classes"
  shows "cond_ConditionalBatchNorm2d_init_weight normal uniform features classes ! c
           = map (\<lambda>j. uniform c j) [0..<features] @ replicate features 0"
proof -
  have "uniform_columns uniform features (Embedding_weight normal classes (features * 2)) ! c
          = map (\<lambda>j. uniform c j) [0..<features] @ map (\<lambda>j. normal c j) [features..<features * 2]"
    using assms
    by (simp add: uniform_columns_def Embedding_weight_def nth_enumerate_eq drop_map)
  then show ?thesis
    using assms
    by (simp add: cond_ConditionalBatchNorm2d_init_weight_def zero_columns_def
        uniform_columns_def Embedding_weight_def)
qed

section \<open>Loops\<close>


lemma for_each_complete:
  "for_each body s bs = (ss, None) \<Longrightarrow> length ss = length bs"
proof (induction bs arbitrary: s ss)
  case Nil
  then show ?case by simp
next
  case (Cons b bs)
  then show ?case by (fastforce split: sum.splits prod.splits)
qed



lemma for_each_invariant:
  assumes step: "\<And>s b s'. b \<in> set bs \<Longrightarrow> body s b = Inr s' \<Longrightarrow> g s' = g s"
    and run: "for_each body s bs = (ss, r)"
  shows "list_all (\<lambda>s'. g s' = g s) ss"
  using run step
proof (induction bs arbitrary: s ss)
  case Nil
  then show ?case by simp
next
  case (Cons b bs)
  show ?case
  proof (cases "body s b")
    case (Inl e)
    with Cons.prems show ?thesis by simp
  next
    case (Inr s')
    from Inr Cons.prems(1) obtain ss' where run: "for_each body s' bs = (ss', r)"
      and ss: "ss = s' # ss'"
      by (auto split: prod.splits)
    have eq: "g s' = g s" using Cons.prems(2) [of b s s'] Inr by simp
    have "list_all (\<lambda>t. g t = g s') ss'"
      using Cons.IH [OF run] Cons.prems(2) by fastforce
    with eq ss show ?thesis by simp
  qed
qed

lemma loop_result_Nil: "loop_result s (for_each body s []) = Inr s"
  by (simp add: loop_result_def)

lemma loop_result_Cons:
  "loop_result s (for_each body s (b # bs))
     = (case body s b of Inl e \<Rightarrow> Inl e | Inr s' \<Rightarrow> loop_result s' (for_each body s' bs))"
  by (cases "body s b"; cases "for_each body (projr (body s b)) bs"; cases "snd (for_each body (projr (body s b)) bs)")
    (simp_all add: loop_result_def)

declare for_each.simps [simp del]

lemma loop_result_accumulates:
  assumes step: "\<And>s b s'. b \<in> set bs \<Longrightarrow> body s b = Inr s' \<Longrightarrow> g s' = g s @ f b"
    and run: "loop_result s (for_each body s bs) = Inr s'"
  shows "g s' = g s @ concat (map f bs)"
  using run step
proof (induction bs arbitrary: s)
  case Nil
  then show ?case by (simp add: loop_result_Nil)
next
  case (Cons b bs)
  from Cons.prems(1) obtain s1 where b: "body s b = Inr s1"
    and rest: "loop_result s1 (for_each body s1 bs) = Inr s'"
    by (auto simp: loop_result_Cons split: sum.splits)
  have "g s1 = g s @ f b" using Cons.prems(2) [of b s s1] b by simp
  moreover have "g s' = g s1 @ concat (map f bs)"
    using Cons.IH [OF rest] Cons.prems(2) by fastforce
  ultimately show ?case by simp
qed

lemma loop_result_keeps:
  assumes step: "\<And>s b s'. b \<in> set bs \<Longrightarrow> body s b = Inr s' \<Longrightarrow> g s' = g s"
    and run: "loop_result s (for_each body s bs) = Inr s'"
  shows "g s' = g s"
  using run step
proof (induction bs arbitrary: s)
  case Nil
  then show ?case by (simp add: loop_result_Nil)
next
  case (Cons b bs)
  from Cons.prems(1) obtain s1 where b: "body s b = Inr s1"
    and rest: "loop_result s1 (for_each body s1 bs) = Inr s'"
    by (auto simp: loop_result_Cons split: sum.splits)
  have "g s1 = g s" using Cons.prems(2) [of b s s1] b by simp
  moreover have "g s' = g s1"
    using Cons.IH [OF rest] Cons.prems(2) by fastforce
  ultimately show ?case by simp
qed

lemma loop_result_total:
  assumes step: "\<And>s b. b \<in> set bs \<Longrightarrow> P s \<Longrightarrow> \<exists>s'. body s b = Inr s' \<and> P s'"
    and init: "P s"
  shows "\<exists>s'. loop_result s (for_each body s bs) = Inr s' \<and> P s'"
  using init step
proof (induction bs arbitrary: s)
  case Nil
  then show ?case by (simp add: loop_result_Nil)
next
  case (Cons b bs)
  from Cons.prems obtain s1 where b: "body s b = Inr s1" and p: "P s1"
    by fastforce
  have "\<exists>s'. loop_result s1 (for_each body s1 bs) = Inr s' \<and> P s'"
    using Cons.IH [OF p] Cons.prems(2) by fastforce
  with b show ?case by (simp add: loop_result_Cons)
qed

lemma enumerate_index_positive:
  "(i, b) \<in> set (enumerate (Suc n) bs) \<Longrightarrow> 0 < i"
  by (auto simp: in_set_enumerate_eq)

lemma first_batch_only:
  assumes later: "\<And>s i b s'. 0 < i \<Longrightarrow> body s (i, b) = Inr s' \<Longrightarrow> fst s' = fst s"
    and run: "loop_result s (for_each body s (enumerate 0 bs)) = Inr s'"
  shows "\<exists>s1. loop_result s (for_each body s (enumerate 0 (take 1 bs))) = Inr s1 \<and> fst s1 = fst s'"
proof (cases bs)
  case Nil
  with run show ?thesis by simp
next
  case (Cons b rest)
  with run obtain s1 where b: "body s (0, b) = Inr s1"
    and tail: "loop_result s1 (for_each body s1 (enumerate (Suc 0) rest)) = Inr s'"
    by (auto simp: loop_result_Cons split: sum.splits)
  have "fst s' = fst s1"
  proof (rule loop_result_keeps [OF _ tail])
    fix t ib t'
    assume "ib \<in> set (enumerate (Suc 0) rest)" and "body t ib = Inr t'"
    then show "fst t' = fst t"
      using later [of "fst ib" t "snd ib" t'] enumerate_index_positive [of "fst ib" "snd ib" 0 rest]
      by simp
  qed
  with b Cons show ?thesis
    by (simp add: loop_result_Cons loop_result_Nil)
qed

lemma conv_test_body_later:
  "0 < i \<Longrightarrow> conv_test_body E model st0 folder epoch s (i, b) = Inr s' \<Longrightarrow> fst s' = fst s"
  by (cases s; cases b)
    (auto simp: conv_test_body_def Let_def split: sum.splits option.splits prod.splits if_splits)

lemma conv_test_body_first:
  "conv_test_body E model st0 folder epoch (disk, loss) (0, b) = Inr s' \<Longrightarrow>
   map fst (fst s') = map fst disk
     @ [folder @ ''/'' @ str_int epoch @ ''.png'', folder @ ''/baseline'' @ str_int epoch @ ''.png'']"
  by (cases b)
    (auto simp: conv_test_body_def Let_def split: sum.splits option.splits prod.splits if_splits)

lemma conv_test_first_batch:
  assumes "conv_test E model st disk test_loader folder epoch = Inr (st', disk')"
  shows "st' = st\<lparr>training := False\<rparr>
       \<and> conv_test E model st disk (take 1 test_loader) folder epoch = Inr (st', disk')"
proof -
  let ?body = "conv_test_body E model (st\<lparr>training := False\<rparr>) folder epoch"
  from assms obtain s' where run:
      "loop_result (disk, 0) (for_each ?body (disk, 0) (enumerate 0 test_loader)) = Inr s'"
    and st: "st' = st\<lparr>training := False\<rparr>" and d: "disk' = fst s'"
    by (cases "loop_result (disk, 0) (for_each ?body (disk, 0) (enumerate 0 test_loader))")
      (auto simp: conv_test_def Let_def split_def)
  have "\<exists>s1. loop_result (disk, 0) (for_each ?body (disk, 0) (enumerate 0 (take 1 test_loader)))
          = Inr s1 \<and> fst s1 = fst s'"
    by (rule first_batch_only [OF _ run]) (rule conv_test_body_later)
  with st d show ?thesis
    by (auto simp: conv_test_def Let_def split_def)
qed

lemma conv_test_paths:
  assumes "conv_test E model st disk test_loader folder epoch = Inr (st', disk')"
    and "test_loader \<noteq> []"
  shows "map fst disk' = map fst disk
     @ [folder @ ''/'' @ str_int epoch @ ''.png'', folder @ ''/baseline'' @ str_int epoch @ ''.png'']"
proof -
  let ?body = "conv_test_body E model (st\<lparr>training := False\<rparr>) folder epoch"
  obtain b rest where bs: "test_loader = b # rest"
    using assms(2) by (cases test_loader) auto
  have one: "conv_test E model st disk [b] folder epoch = Inr (st', disk')"
    using conv_test_first_batch [OF assms(1)] bs by simp
  then obtain s1 where "?body (disk, 0) (0, b) = Inr s1" and "disk' = fst s1"
    by (cases "?body (disk, 0) (0, b)")
      (auto simp: conv_test_def Let_def split_def loop_result_Cons loop_result_Nil)
  then show ?thesis
    using conv_test_body_first by blast
qed

lemma conv_main_body_paths:
  assumes "conv_main_body E model train_loader test_loader folder True (st, disk) epoch = Inr (st', disk')"
    and "test_loader epoch \<noteq> []"
  shows "map fst disk' = map fst disk
     @ [folder @ ''/'' @ str_int epoch @ ''.png'', folder @ ''/baseline'' @ str_int epoch @ ''.png'', folder @ ''/'' @ str_int epoch @ ''.pt'']"
proof -
  from assms(1) obtain st1 st2 disk2 where
      "conv_train E model st (train_loader epoch) epoch = Inr st1"
    and "conv_test E model st1 disk (test_loader epoch) folder epoch = Inr (st2, disk2)"
    and "disk' = disk2 @ [(folder @ ''/'' @ str_int epoch @ ''.pt'', StateDict (params st2))]"
    by (auto simp: conv_main_body_def split: sum.splits)
  then show ?thesis
    using conv_test_paths [OF _ assms(2)] by fastforce
qed

lemma res_test_body_later:
  "0 < i \<Longrightarrow> res_test_body E model st0 folder epoch s (i, b) = Inr s' \<Longrightarrow> fst s' = fst s"
  by (cases s; cases b)
    (auto simp: res_test_body_def Let_def split: sum.splits option.splits prod.splits if_splits)

lemma res_test_body_first:
  "res_test_body E model st0 folder epoch (disk, loss) (0, b) = Inr s' \<Longrightarrow>
   map fst (fst s') = map fst disk
     @ [folder @ ''/'' @ str_int epoch @ ''.png'', folder @ ''/'' @ str_int epoch @ ''baseline.png'']"
  by (cases b)
    (auto simp: res_test_body_def Let_def split: sum.splits option.splits prod.splits if_splits)

lemma res_test_first_batch:
  assumes "res_test E model st disk test_loader folder epoch = Inr (st', disk')"
  shows "st' = st\<lparr>training := False\<rparr>
       \<and> res_test E model st disk (take 1 test_loader) folder epoch = Inr (st', disk')"
proof -
  let ?body = "res_test_body E model (st\<lparr>training := False\<rparr>) folder epoch"
  from assms obtain s' where run:
      "loop_result (disk, 0) (for_each ?body (disk, 0) (enumerate 0 test_loader)) = Inr s'"
    and st: "st' = st\<lparr>training := False\<rparr>" and d: "disk' = fst s'"
    by (cases "loop_result (disk, 0) (for_each ?body (disk, 0) (enumerate 0 test_loader))")
      (auto simp: res_test_def Let_def split_def)
  have "\<exists>s1. loop_result (disk, 0) (for_each ?body (disk, 0) (enumerate 0 (take 1 test_loader)))
          = Inr s1 \<and> fst s1 = fst s'"
    by (rule first_batch_only [OF _ run]) (rule res_test_body_later)
  with st d show ?thesis
    by (auto simp: res_test_def Let_def split_def)
qed

lemma res_test_paths:
  assumes "res_test E model st disk test_loader folder epoch = Inr (st', disk')"
    and "test_loader \<noteq> []"
  shows "map fst disk' = map fst disk
     @ [folder @ ''/'' @ str_int epoch @ ''.png'', folder @ ''/'' @ str_int epoch @ ''baseline.png'']"
proof -
  let ?body = "res_test_body E model (st\<lparr>training := False\<rparr>) folder epoch"
  obtain b rest where bs: "test_loader = b # rest"
    using assms(2) by (cases test_loader) auto
  have one: "res_test E model st disk [b] folder epoch = Inr (st', disk')"
    using res_test_first_batch [OF assms(1)] bs by simp
  then obtain s1 where "?body (disk, 0) (0, b) = Inr s1" and "disk' = fst s1"
    by (cases "?body (disk, 0) (0, b)")
      (auto simp: res_test_def Let_def split_def loop_result_Cons loop_result_Nil)
  then show ?thesis
    using res_test_body_first by blast
qed

lemma res_main_body_paths:
  assumes "res_main_body E model train_loader test_loader folder True (st, disk) epoch = Inr (st', disk')"
    and "test_loader epoch \<noteq> []"
  shows "map fst disk' = map fst disk
     @ [folder @ ''/'' @ str_int epoch @ ''.png'', folder @ ''/'' @ str_int epoch @ ''baseline.png'', folder @ ''/'' @ str_int epoch @ ''.pt'']"
proof -
  from assms(1) obtain st1 st2 disk2 where
      "res_train E model st (train_loader epoch) epoch = Inr st1"
    and "res_test E model st1 disk (test_loader epoch) folder epoch = Inr (st2, disk2)"
    and "disk' = disk2 @ [(folder @ ''/'' @ str_int epoch @ ''.pt'', StateDict (params st2))]"
    by (auto simp: res_main_body_def split: sum.splits)
  then show ?thesis
    using res_test_paths [OF _ assms(2)] by fastforce
qed

lemma cond_test_body_later:
  "0 < i \<Longrightarrow> cond_test_body E model st0 folder epoch s (i, b) = Inr s' \<Longrightarrow> fst s' = fst s"
  by (cases s; cases b)
    (auto simp: cond_test_body_def Let_def split: sum.splits option.splits prod.splits if_splits)

lemma cond_test_body_first:
  "cond_test_body E model st0 folder epoch (disk, loss) (0, b) = Inr s' \<Longrightarrow>
   map fst (fst s') = map fst disk
     @ [folder @ ''/'' @ str_int epoch @ ''.png'', folder @ ''/'' @ str_int epoch @ ''baseline.png'']"
  by (cases b)
    (auto simp: cond_test_body_def Let_def split: sum.splits option.splits prod.splits if_splits)

lemma cond_test_first_batch:
  assumes "cond_test E model st disk test_loader folder epoch = Inr (st', disk')"
  shows "st' = st\<lparr>training := False\<rparr>
       \<and> cond_test E model st disk (take 1 test_loader) folder epoch = Inr (st', disk')"
proof -
  let ?body = "cond_test_body E model (st\<lparr>training := False\<rparr>) folder epoch"
  from assms obtain s' where run:
      "loop_result (disk, 0) (for_each ?body (disk, 0) (enumerate 0 test_loader)) = Inr s'"
    and st: "st' = st\<lparr>training := False\<rparr>" and d: "disk' = fst s'"
    by (cases "loop_result (disk, 0) (for_each ?body (disk, 0) (enumerate 0 test_loader))")
      (auto simp: cond_test_def Let_def split_def)
  have "\<exists>s1. loop_result (disk, 0) (for_each ?body (disk, 0) (enumerate 0 (take 1 test_loader)))
          = Inr s1 \<and> fst s1 = fst s'"
    by (rule first_batch_only [OF _ run]) (rule cond_test_body_later)
  with st d show ?thesis
    by (auto simp: cond_test_def Let_def split_def)
qed

lemma cond_test_paths:
  assumes "cond_test E model st disk test_loader folder epoch = Inr (st', disk')"
    and "test_loader \<noteq> []"
  shows "map fst disk' = map fst disk
     @ [folder @ ''/'' @ str_int epoch @ ''.png'', folder @ ''/'' @ str_int epoch @ ''baseline.png'']"
proof -
  let ?body = "cond_test_body E model (st\<lparr>training := False\<rparr>) folder epoch"
  obtain b rest where bs: "test_loader = b # rest"
    using assms(2) by (cases test_loader) auto
  have one: "cond_test E model st disk [b] folder epoch = Inr (st', disk')"
    using cond_test_first_batch [OF assms(1)] bs by simp
  then obtain s1 where "?body (disk, 0) (0, b) = Inr s1" and "disk' = fst s1"
    by (cases "?body (disk, 0) (0, b)")
      (auto simp: cond_test_def Let_def split_def loop_result_Cons loop_result_Nil)
  then show ?thesis
    using cond_test_body_first by blast
qed

lemma cond_main_body_paths:
  assumes "cond_main_body E model train_loader test_loader folder True (st, disk) epoch = Inr (st', disk')"
    and "test_loader epoch \<noteq> []"
  shows "map fst disk' = map fst disk
     @ [folder @ ''/'' @ str_int epoch @ ''.png'', folder @ ''/'' @ str_int epoch @ ''baseline.png'', folder @ ''/'' @ str_int epoch @ ''.pt'']"
proof -
  from assms(1) obtain st1 st2 disk2 where
      "cond_train E model st (train_loader epoch) epoch = Inr st1"
    and "cond_test E model st1 disk (test_loader epoch) folder epoch = Inr (st2, disk2)"
    and "disk' = disk2 @ [(folder @ ''/'' @ str_int epoch @ ''.pt'', StateDict (params st2))]"
    by (auto simp: cond_main_body_def split: sum.splits)
  then show ?thesis
    using cond_test_paths [OF _ assms(2)] by fastforce
qed

lemma ff_test_body_later:
  "0 < i \<Longrightarrow> ff_test_body st0 folder epoch s (i, b) = Inr s' \<Longrightarrow> fst s' = fst s"
  by (cases s; cases b)
    (auto simp: ff_test_body_def Let_def split: sum.splits option.splits prod.splits if_splits)

lemma ff_test_body_first:
  "ff_test_body st0 folder epoch (disk, loss) (0, b) = Inr s' \<Longrightarrow>
   map fst (fst s') = map fst disk
     @ [folder @ ''/'' @ str_int epoch @ ''.png'', folder @ ''/baseline'' @ str_int epoch @ ''.png'']"
  by (cases b)
    (auto simp: ff_test_body_def Let_def split: sum.splits option.splits prod.splits if_splits)

lemma ff_test_first_batch:
  assumes "ff_test st disk test_loader folder epoch = Inr (st', disk')"
  shows "st' = st\<lparr>training := False\<rparr>
       \<and> ff_test st disk (take 1 test_loader) folder epoch = Inr (st', disk')"
proof -
  let ?body = "ff_test_body (st\<lparr>training := False\<rparr>) folder epoch"
  from assms obtain s' where run:
      "loop_result (disk, 0) (for_each ?body (disk, 0) (enumerate 0 test_loader)) = Inr s'"
    and st: "st' = st\<lparr>training := False\<rparr>" and d: "disk' = fst s'"
    by (cases "loop_result (disk, 0) (for_each ?body (disk, 0) (enumerate 0 test_loader))")
      (auto simp: ff_test_def Let_def split_def)
  have "\<exists>s1. loop_result (disk, 0) (for_each ?body (disk, 0) (enumerate 0 (take 1 test_loader)))
          = Inr s1 \<and> fst s1 = fst s'"
    by (rule first_batch_only [OF _ run]) (rule ff_test_body_later)
  with st d show ?thesis
    by (auto simp: ff_test_def Let_def split_def)
qed

lemma ff_test_paths:
  assumes "ff_test st disk test_loader folder epoch = Inr (st', disk')"
    and "test_loader \<noteq> []"
  shows "map fst disk' = map fst disk
     @ [folder @ ''/'' @ str_int epoch @ ''.png'', folder @ ''/baseline'' @ str_int epoch @ ''.png'']"
proof -
  let ?body = "ff_test_body (st\<lparr>training := False\<rparr>) folder epoch"
  obtain b rest where bs: "test_loader = b # rest"
    using assms(2) by (cases test_loader) auto
  have one: "ff_test st disk [b] folder epoch = Inr (st', disk')"
    using ff_test_first_batch [OF assms(1)] bs by simp
  then obtain s1 where "?body (disk, 0) (0, b) = Inr s1" and "disk' = fst s1"
    by (cases "?body (disk, 0) (0, b)")
      (auto simp: ff_test_def Let_def split_def loop_result_Cons loop_result_Nil)
  then show ?thesis
    using ff_test_body_first by blast
qed

lemma ff_main_body_paths:
  assumes "ff_main_body E train_loader test_loader folder True (st, disk) epoch = Inr (st', disk')"
    and "test_loader epoch \<noteq> []"
  shows "map fst disk' = map fst disk
     @ [folder @ ''/'' @ str_int epoch @ ''.png'', folder @ ''/baseline'' @ str_int epoch @ ''.png'', folder @ ''/'' @ str_int epoch @ ''.pt'']"
proof -
  from assms(1) obtain st1 st2 disk2 where
      "ff_train E st (train_loader epoch) epoch = Inr st1"
    and "ff_test st1 disk (test_loader epoch) folder epoch = Inr (st2, disk2)"
    and "disk' = disk2 @ [(folder @ ''/'' @ str_int epoch @ ''.pt'', StateDict (params st2))]"
    by (auto simp: ff_main_body_def split: sum.splits)
  then show ?thesis
    using ff_test_paths [OF _ assms(2)] by fastforce
qed

lemma conv_main_paths:
  assumes "conv_main E disk = Inr (st', disk')"
    and "list_all (\<lambda>epoch. snd (get_cifar10 E ''data'' (cuda_is_available E) 128 100) epoch \<noteq> []) [1..20]"
  shows "map fst disk' = map fst disk
     @ concat (map (\<lambda>epoch. [''convolutional_cifar'' @ ''/'' @ str_int epoch @ ''.png'', ''convolutional_cifar'' @ ''/baseline'' @ str_int epoch @ ''.png'',
                              ''convolutional_cifar'' @ ''/'' @ str_int epoch @ ''.pt'']) [1..20])"
proof -
  let ?body = "conv_main_body E conv_Autoencoder_init (fst (get_cifar10 E ''data'' (cuda_is_available E) 128 100)) (snd (get_cifar10 E ''data'' (cuda_is_available E) 128 100)) (''convolutional_cifar'') True"
  let ?st = "\<lparr>params = initial_params E, optimizer = Adam E (initial_params E), training = True\<rparr>"
  let ?f = "\<lambda>epoch. [''convolutional_cifar'' @ ''/'' @ str_int epoch @ ''.png'', ''convolutional_cifar'' @ ''/baseline'' @ str_int epoch @ ''.png'',
                      ''convolutional_cifar'' @ ''/'' @ str_int epoch @ ''.pt'']"
  from assms(1) have run: "loop_result (?st, disk) (for_each ?body (?st, disk) [1..20]) = Inr (st', disk')"
    by (simp add: conv_main_def Let_def split_def)
  have "(map fst \<circ> snd) (st', disk') = (map fst \<circ> snd) (?st, disk) @ concat (map ?f [1..20])"
  proof (rule loop_result_accumulates [OF _ run])
    fix s b s'
    assume b: "b \<in> set [1..20]" and step: "?body s b = Inr s'"
    from assms(2) b have ne: "snd (get_cifar10 E ''data'' (cuda_is_available E) 128 100) b \<noteq> []"
      unfolding list_all_iff by blast
    have "conv_main_body E conv_Autoencoder_init (fst (get_cifar10 E ''data'' (cuda_is_available E) 128 100)) (snd (get_cifar10 E ''data'' (cuda_is_available E) 128 100)) (''convolutional_cifar'') True (st, disk) b = Inr (st', disk') \<Longrightarrow>
        map fst disk' = map fst disk @ ?f b" for st disk st' disk'
      by (rule conv_main_body_paths [where test_loader = "snd (get_cifar10 E ''data'' (cuda_is_available E) 128 100)" and epoch = b, OF _ ne])
    from this [of "fst s" "snd s" "fst s'" "snd s'"] step
    show "(map fst \<circ> snd) s' = (map fst \<circ> snd) s @ ?f b"
      by simp
  qed
  then show ?thesis by simp
qed

lemma res_main_paths:
  assumes "res_main E bottleneck disk = Inr (st', disk')"
    and "list_all (\<lambda>epoch. snd (get_cifar10 E ''data'' (cuda_is_available E) 128 100) epoch \<noteq> []) [1..20]"
  shows "map fst disk' = map fst disk
     @ concat (map (\<lambda>epoch. [(''residual_cifar_'' @ str_int bottleneck @ ''_bottle'') @ ''/'' @ str_int epoch @ ''.png'', (''residual_cifar_'' @ str_int bottleneck @ ''_bottle'') @ ''/'' @ str_int epoch @ ''baseline.png'',
                              (''residual_cifar_'' @ str_int bottleneck @ ''_bottle'') @ ''/'' @ str_int epoch @ ''.pt'']) [1..20])"
proof -
  let ?body = "res_main_body E (res_Autoencoder_init bottleneck) (fst (get_cifar10 E ''data'' (cuda_is_available E) 128 100)) (snd (get_cifar10 E ''data'' (cuda_is_available E) 128 100)) (''residual_cifar_'' @ str_int bottleneck @ ''_bottle'') True"
  let ?st = "\<lparr>params = initial_params E, optimizer = Adam E (initial_params E), training = True\<rparr>"
  let ?f = "\<lambda>epoch. [(''residual_cifar_'' @ str_int bottleneck @ ''_bottle'') @ ''/'' @ str_int epoch @ ''.png'', (''residual_cifar_'' @ str_int bottleneck @ ''_bottle'') @ ''/'' @ str_int epoch @ ''baseline.png'',
                      (''residual_cifar_'' @ str_int bottleneck @ ''_bottle'') @ ''/'' @ str_int epoch @ ''.pt'']"
  from assms(1) have run: "loop_result (?st, disk) (for_each ?body (?st, disk) [1..20]) = Inr (st', disk')"
    by (simp add: res_main_def Let_def split_def)
  have "(map fst \<circ> snd) (st', disk') = (map fst \<circ> snd) (?st, disk) @ concat (map ?f [1..20])"
  proof (rule loop_result_accumulates [OF _ run])
    fix s b s'
    assume b: "b \<in> set [1..20]" and step: "?body s b = Inr s'"
    from assms(2) b have ne: "snd (get_cifar10 E ''data'' (cuda_is_available E) 128 100) b \<noteq> []"
      unfolding list_all_iff by blast
    have "res_main_body E (res_Autoencoder_init bottleneck) (fst (get_cifar10 E ''data'' (cuda_is_available E) 128 100)) (snd (get_cifar10 E ''data'' (cuda_is_available E) 128 100)) (''residual_cifar_'' @ str_int bottleneck @ ''_bottle'') True (st, disk) b = Inr (st', disk') \<Longrightarrow>
        map fst disk' = map fst disk @ ?f b" for st disk st' disk'
      by (rule res_main_body_paths [where test_loader = "snd (get_cifar10 E ''data'' (cuda_is_available E) 128 100)" and epoch = b, OF _ ne])
    from this [of "fst s" "snd s" "fst s'" "snd s'"] step
    show "(map fst \<circ> snd) s' = (map fst \<circ> snd) s @ ?f b"
      by simp
  qed
  then show ?thesis by simp
qed

lemma ff_main_paths:
  assumes "ff_main E disk = Inr (st', disk')"
    and "list_all (\<lambda>epoch. snd (get_mnist E ''data'' (ff_cuda_is_available E) 64 100) epoch \<noteq> []) [1..10]"
  shows "map fst disk' = map fst disk
     @ concat (map (\<lambda>epoch. [''feedforward'' @ ''/'' @ str_int epoch @ ''.png'', ''feedforward'' @ ''/baseline'' @ str_int epoch @ ''.png'',
                              ''feedforward'' @ ''/'' @ str_int epoch @ ''.pt'']) [1..10])"
proof -
  let ?body = "ff_main_body E (fst (get_mnist E ''data'' (ff_cuda_is_available E) 64 100)) (snd (get_mnist E ''data'' (ff_cuda_is_available E) 64 100)) (''feedforward'') True"
  let ?st = "\<lparr>params = ff_Autoencoder_init (ff_rng E), optimizer = ff_Adam E (ff_Autoencoder_init (ff_rng E)), training = True\<rparr>"
  let ?f = "\<lambda>epoch. [''feedforward'' @ ''/'' @ str_int epoch @ ''.png'', ''feedforward'' @ ''/baseline'' @ str_int epoch @ ''.png'',
                      ''feedforward'' @ ''/'' @ str_int epoch @ ''.pt'']"
  from assms(1) have run: "loop_result (?st, disk) (for_each ?body (?st, disk) [1..10]) = Inr (st', disk')"
    by (simp add: ff_main_def Let_def split_def)
  have "(map fst \<circ> snd) (st', disk') = (map fst \<circ> snd) (?st, disk) @ concat (map ?f [1..10])"
  proof (rule loop_result_accumulates [OF _ run])
    fix s b s'
    assume b: "b \<in> set [1..10]" and step: "?body s b = Inr s'"
    from assms(2) b have ne: "snd (get_mnist E ''data'' (ff_cuda_is_available E) 64 100) b \<noteq> []"
      unfolding list_all_iff by blast
    have "ff_main_body E (fst (get_mnist E ''data'' (ff_cuda_is_available E) 64 100)) (snd (get_mnist E ''data'' (ff_cuda_is_available E) 64 100)) (''feedforward'') True (st, disk) b = Inr (st', disk') \<Longrightarrow>
        map fst disk' = map fst disk @ ?f b" for st disk st' disk'
      by (rule ff_main_body_paths [where test_loader = "snd (get_mnist E ''data'' (ff_cuda_is_available E) 64 100)" and epoch = b, OF _ ne])
    from this [of "fst s" "snd s" "fst s'" "snd s'"] step
    show "(map fst \<circ> snd) s' = (map fst \<circ> snd) s @ ?f b"
      by simp
  qed
  then show ?thesis by simp
qed


lemma cond_main_paths:
  assumes "cond_main E disk = Inr (st', disk')"
    and "list_all (\<lambda>epoch. snd (get_cifar10 E ''data'' (cuda_is_available E) 64 100) epoch \<noteq> []) [1..10]"
  shows "map fst disk' = map fst disk
     @ concat (map (\<lambda>epoch. [''conditional'' @ ''/'' @ str_int epoch @ ''.png'',
                              ''conditional'' @ ''/'' @ str_int epoch @ ''baseline.png'',
                              ''conditional'' @ ''/'' @ str_int epoch @ ''.pt'']) [1..10])"
proof -
  obtain model where model: "cond_Autoencoder_init = Inr model"
    using cond_init_parts by blast
  let ?loaders = "get_cifar10 E ''data'' (cuda_is_available E) 64 100"
  let ?body = "cond_main_body E model (fst ?loaders) (snd ?loaders) ''conditional'' True"
  let ?st = "\<lparr>params = initial_params E, optimizer = Adam E (initial_params E), training = True\<rparr>"
  let ?f = "\<lambda>epoch. [''conditional'' @ ''/'' @ str_int epoch @ ''.png'',
                      ''conditional'' @ ''/'' @ str_int epoch @ ''baseline.png'',
                      ''conditional'' @ ''/'' @ str_int epoch @ ''.pt'']"
  from assms(1) have run: "loop_result (?st, disk) (for_each ?body (?st, disk) [1..10]) = Inr (st', disk')"
    by (simp add: cond_main_def Let_def split_def model)
  have "(map fst \<circ> snd) (st', disk') = (map fst \<circ> snd) (?st, disk) @ concat (map ?f [1..10])"
  proof (rule loop_result_accumulates [OF _ run])
    fix s b s'
    assume b: "b \<in> set [1..10]" and step: "?body s b = Inr s'"
    from assms(2) b have ne: "snd ?loaders b \<noteq> []"
      unfolding list_all_iff by blast
    have "cond_main_body E model (fst ?loaders) (snd ?loaders) ''conditional'' True (st, disk) b
            = Inr (st', disk') \<Longrightarrow>
        map fst disk' = map fst disk @ ?f b" for st disk st' disk'
      by (rule cond_main_body_paths [where test_loader = "snd ?loaders" and epoch = b, OF _ ne])
    from this [of "fst s" "snd s" "fst s'" "snd s'"] step
    show "(map fst \<circ> snd) s' = (map fst \<circ> snd) s @ ?f b"
      by simp
  qed
  then show ?thesis by simp
qed

section \<open>The scripts run to the end in the small world\<close>

lemma zero_world_sel:
  "lib zero_world p mode = shapes mode"
  "elements zero_world = zero_elements"
  "backward_step zero_world opt p data = (opt, p)"
  "backward_step_labels zero_world opt p data labels = (opt, p)"
  "initial_params zero_world = ()"
  "Adam zero_world p = ()"
  "cuda_is_available zero_world = False"
  "get_cifar10 zero_world path use_cuda batch_size test_batch_size =
     (\<lambda>epoch. [(Some [batch_size, 3, 32, 32], replicate batch_size 0)],
      \<lambda>epoch. [(Some [test_batch_size, 3, 32, 32], replicate test_batch_size 0),
               (Some [test_batch_size, 3, 32, 32], replicate test_batch_size 0)])"
  by (simp_all add: zero_world_def)

lemma conv_train_total: "\<exists>st'. conv_train E model st train_loader epoch = Inr st'"
proof -
  have "\<exists>s'. loop_result (st\<lparr>training := True\<rparr>, 0)
          (for_each (conv_train_body E model) (st\<lparr>training := True\<rparr>, 0) (enumerate 0 train_loader))
        = Inr s' \<and> True"
    by (rule loop_result_total) (auto simp: conv_train_body_def Let_def split_def)
  then show ?thesis
    by (auto simp: conv_train_def conv_train_loop_def Let_def)
qed

lemma res_train_total: "\<exists>st'. res_train E model st train_loader epoch = Inr st'"
proof -
  have "\<exists>s'. loop_result (st\<lparr>training := True\<rparr>, 0)
          (for_each (res_train_body E model) (st\<lparr>training := True\<rparr>, 0) (enumerate 0 train_loader))
        = Inr s' \<and> True"
    by (rule loop_result_total) (auto simp: res_train_body_def Let_def split_def)
  then show ?thesis
    by (auto simp: res_train_def res_train_loop_def Let_def)
qed

lemma zero_elements_length:
  "length (zero_elements (Some [100, 3, 32, 32])) = 100 * 3 * 32 * 32"
  by (simp add: zero_elements_def)

lemma conv_test_zero_world:
  "\<exists>st' disk'. conv_test zero_world conv_Autoencoder_init st disk
      [(Some [100, 3, 32, 32], l1), (Some [100, 3, 32, 32], l2)] folder epoch = Inr (st', disk')"
  by (simp add: conv_test_def conv_test_body_def Let_def loop_result_Cons loop_result_Nil
      enumerate_eq_zip zero_world_sel conv_roundtrip zero_elements_length upt_rec [of 0] upt_rec [of 1])

lemma res_test_zero_world:
  "\<exists>st' disk'. res_test zero_world (res_Autoencoder_init bottleneck) st disk
      [(Some [100, 3, 32, 32], l1), (Some [100, 3, 32, 32], l2)] folder epoch = Inr (st', disk')"
  by (simp add: res_test_def res_test_body_def Let_def loop_result_Cons loop_result_Nil
      enumerate_eq_zip zero_world_sel res_roundtrip zero_elements_length upt_rec [of 0] upt_rec [of 1])

lemma conv_main_body_zero_world:
  "\<exists>s'. conv_main_body zero_world conv_Autoencoder_init
          (fst (get_cifar10 zero_world path cuda batch_size 100))
          (snd (get_cifar10 zero_world path cuda batch_size 100)) folder True s b = Inr s' \<and> True"
proof -
  obtain st d where s: "s = (st, d)" by (cases s)
  obtain st1 where 1: "conv_train zero_world conv_Autoencoder_init st
      (fst (get_cifar10 zero_world path cuda batch_size 100) b) b = Inr st1"
    using conv_train_total by blast
  obtain st2 d2 where 2: "conv_test zero_world conv_Autoencoder_init st1 d
      (snd (get_cifar10 zero_world path cuda batch_size 100) b) folder b = Inr (st2, d2)"
    using conv_test_zero_world [of st1 d "replicate 100 0" "replicate 100 0" folder b]
    by (auto simp: zero_world_sel)
  show ?thesis
    by (simp add: conv_main_body_def s 1 2)
qed

lemma conv_main_zero_world: "\<exists>st' disk'. conv_main zero_world  disk = Inr (st', disk')"
proof -
  
  let ?loaders = "get_cifar10 zero_world ''data'' (cuda_is_available zero_world) 128 100"
  let ?body = "conv_main_body zero_world conv_Autoencoder_init (fst ?loaders) (snd ?loaders) (''convolutional_cifar'') True"
  let ?st = "\<lparr>params = initial_params zero_world,
              optimizer = Adam zero_world (initial_params zero_world), training = True\<rparr>"
  have "\<exists>s'. loop_result (?st, disk) (for_each ?body (?st, disk) [1..20]) = Inr s' \<and> True"
    by (rule loop_result_total) (rule conv_main_body_zero_world, simp)
  then show ?thesis
    by (auto simp: conv_main_def Let_def split_def )
qed

lemma res_main_body_zero_world:
  "\<exists>s'. res_main_body zero_world (res_Autoencoder_init bottleneck)
          (fst (get_cifar10 zero_world path cuda batch_size 100))
          (snd (get_cifar10 zero_world path cuda batch_size 100)) folder True s b = Inr s' \<and> True"
proof -
  obtain st d where s: "s = (st, d)" by (cases s)
  obtain st1 where 1: "res_train zero_world (res_Autoencoder_init bottleneck) st
      (fst (get_cifar10 zero_world path cuda batch_size 100) b) b = Inr st1"
    using res_train_total by blast
  obtain st2 d2 where 2: "res_test zero_world (res_Autoencoder_init bottleneck) st1 d
      (snd (get_cifar10 zero_world path cuda batch_size 100) b) folder b = Inr (st2, d2)"
    using res_test_zero_world [of bottleneck st1 d "replicate 100 0" "replicate 100 0" folder b]
    by (auto simp: zero_world_sel)
  show ?thesis
    by (simp add: res_main_body_def s 1 2)
qed

lemma res_main_zero_world: "\<exists>st' disk'. res_main zero_world bottleneck disk = Inr (st', disk')"
proof -
  
  let ?loaders = "get_cifar10 zero_world ''data'' (cuda_is_available zero_world) 128 100"
  let ?body = "res_main_body zero_world (res_Autoencoder_init bottleneck) (fst ?loaders) (snd ?loaders) (''residual_cifar_'' @ str_int bottleneck @ ''_bottle'') True"
  let ?st = "\<lparr>params = initial_params zero_world,
              optimizer = Adam zero_world (initial_params zero_world), training = True\<rparr>"
  have "\<exists>s'. loop_result (?st, disk) (for_each ?body (?st, disk) [1..20]) = Inr s' \<and> True"
    by (rule loop_result_total) (rule res_main_body_zero_world, simp)
  then show ?thesis
    by (auto simp: res_main_def Let_def split_def )
qed

lemma cond_forward_zero_world:
  assumes "cond_Autoencoder_init = Inr model" and "labels_ok n y"
  shows "\<exists>l. cond_Autoencoder_conditional_forward (shapes mode) model (Some [n, 3, 32, 32]) y
           = Inr (Some [n, 3, 32, 32], l)"
proof -
  obtain m where m: "cond_Autoencoder_init = Inr m"
    and r: "map_sum id fst (cond_Autoencoder_conditional_forward (shapes mode) m (Some [n, 3, 32, 32]) y)
         = Inr (Some [n, 3, 32, 32])"
    using cond_conditional_roundtrip [OF assms(2)] by blast
  from m assms(1) have "m = model" by (metis sum.inject(2))
  with r show ?thesis
    by (cases "cond_Autoencoder_conditional_forward (shapes mode) model (Some [n, 3, 32, 32]) y") auto
qed

lemma labels_ok_replicate: "labels_ok n (replicate n 0)"
  by (simp add: labels_ok_def list_all_iff)

lemma cond_train_zero_world:
  assumes "cond_Autoencoder_init = Inr model"
  shows "\<exists>st'. cond_train zero_world model st [(Some [n, 3, 32, 32], replicate n 0)] epoch = Inr st'"
proof -
  obtain l where "cond_Autoencoder_conditional_forward (shapes True) model (Some [n, 3, 32, 32]) (replicate n 0)
      = Inr (Some [n, 3, 32, 32], l)"
    using cond_forward_zero_world [OF assms labels_ok_replicate] by blast
  then show ?thesis
    by (simp add: cond_train_def cond_train_loop_def cond_train_body_def Let_def
        loop_result_Cons loop_result_Nil enumerate_eq_zip zero_world_sel)
qed

lemma cond_test_zero_world:
  assumes "cond_Autoencoder_init = Inr model"
  shows "\<exists>st' disk'. cond_test zero_world model st disk
      [(Some [100, 3, 32, 32], replicate 100 0), (Some [100, 3, 32, 32], replicate 100 0)]
      folder epoch = Inr (st', disk')"
proof -
  obtain l where "cond_Autoencoder_conditional_forward (shapes False) model (Some [100, 3, 32, 32]) (replicate 100 0)
      = Inr (Some [100, 3, 32, 32], l)"
    using cond_forward_zero_world [OF assms labels_ok_replicate] by blast
  then show ?thesis
    by (simp add: cond_test_def cond_test_body_def Let_def loop_result_Cons loop_result_Nil
      enumerate_eq_zip zero_world_sel zero_elements_length upt_rec [of 0] upt_rec [of 1])
qed

lemma cond_main_body_zero_world:
  assumes "cond_Autoencoder_init = Inr model"
  shows "\<exists>s'. cond_main_body zero_world model
          (fst (get_cifar10 zero_world path cuda batch_size 100))
          (snd (get_cifar10 zero_world path cuda batch_size 100)) folder True s b = Inr s' \<and> True"
proof -
  obtain st d where s: "s = (st, d)" by (cases s)
  obtain st1 where 1: "cond_train zero_world model st
      (fst (get_cifar10 zero_world path cuda batch_size 100) b) b = Inr st1"
    using cond_train_zero_world [OF assms, of st batch_size b] by (auto simp: zero_world_sel)
  obtain st2 d2 where 2: "cond_test zero_world model st1 d
      (snd (get_cifar10 zero_world path cuda batch_size 100) b) folder b = Inr (st2, d2)"
    using cond_test_zero_world [OF assms, of st1 d folder b]
    by (auto simp: zero_world_sel)
  show ?thesis
    by (simp add: cond_main_body_def s 1 2)
qed

lemma cond_main_zero_world: "\<exists>st' disk'. cond_main zero_world  disk = Inr (st', disk')"
proof -
  obtain model where model: "cond_Autoencoder_init = Inr model"
    using cond_init_parts by blast
  let ?loaders = "get_cifar10 zero_world ''data'' (cuda_is_available zero_world) 64 100"
  let ?body = "cond_main_body zero_world model (fst ?loaders) (snd ?loaders) (''conditional'') True"
  let ?st = "\<lparr>params = initial_params zero_world,
              optimizer = Adam zero_world (initial_params zero_world), training = True\<rparr>"
  have "\<exists>s'. loop_result (?st, disk) (for_each ?body (?st, disk) [1..10]) = Inr s' \<and> True"
    by (rule loop_result_total) (rule cond_main_body_zero_world [OF model], simp)
  then show ?thesis
    by (auto simp: cond_main_def Let_def split_def model)
qed

section \<open>Losses\<close>

lemma batch_of_concat_length: "batch_of n x \<Longrightarrow> length (concat x) = length x * n"
  by (induction x) (simp_all add: batch_of_def)

lemma batch_of_map_length: "batch_of n x \<Longrightarrow> map length x = replicate (length x) n"
  by (induction x) (simp_all add: batch_of_def)

lemma zero_images_flatten:
  "batch_of 784 (ff_flatten (zero_images n))"
  "length (ff_flatten (zero_images n)) = n"
  "unit_range (ff_flatten (zero_images n))"
  by (simp_all add: batch_of_def unit_range_def ff_flatten_def zero_images_def list_all_iff
      length_concat sum_list_replicate)






lemma binary_cross_entropy_total:
  assumes "batch_of n output" "batch_of n target" "length output = length target"
    and "unit_range output"
  shows "\<exists>loss. binary_cross_entropy output target = Inr loss"
  using assms batch_of_map_length [OF assms(1)] batch_of_map_length [OF assms(2)]
  by (simp add: binary_cross_entropy_def unit_range_def)

lemma view_images_total:
  assumes "batch_of 784 x" "length x = 100"
  shows "\<exists>y. view_images 100 1 28 28 x = Some y"
  using batch_of_concat_length [OF assms(1)] assms(2)
  by (simp add: view_images_def Let_def)

lemma ff_zero_world_sel:
  "ff_backward_step ff_zero_world opt model data = (opt, model)"
  "ff_rng ff_zero_world = zero_sampler"
  "ff_Adam ff_zero_world model = ()"
  "ff_cuda_is_available ff_zero_world = False"
  "get_mnist ff_zero_world path use_cuda batch_size test_batch_size =
     (\<lambda>epoch. [(zero_images batch_size, replicate batch_size 0)],
      \<lambda>epoch. [(zero_images test_batch_size, replicate test_batch_size 0),
               (zero_images test_batch_size, replicate test_batch_size 0)])"
  by (simp_all add: ff_zero_world_def)

lemma ff_forward_zero_images:
  "\<exists>out loss. ff_Autoencoder_forward (ff_Autoencoder_init rng) (ff_flatten (zero_images n)) = Some out
     \<and> binary_cross_entropy out (ff_flatten (zero_images n)) = Inr loss
     \<and> batch_of 784 out \<and> length out = n"
proof -
  obtain out where o: "ff_Autoencoder_forward (ff_Autoencoder_init rng) (ff_flatten (zero_images n)) = Some out"
    "length out = length (ff_flatten (zero_images n))" "batch_of 784 out" "unit_range out"
    using ff_autoencoder_shape [OF zero_images_flatten(1)] by blast
  obtain l where l: "binary_cross_entropy out (ff_flatten (zero_images n)) = Inr l"
    using binary_cross_entropy_total [OF o(3) zero_images_flatten(1) o(2) o(4)] by blast
  have "length out = n"
    using o(2) zero_images_flatten(2) by simp
  with o(1,3) l show ?thesis by blast
qed

lemma ff_train_body_zero_world:
  assumes "params st = ff_Autoencoder_init rng"
  shows "\<exists>st' loss'. ff_train_body ff_zero_world (st, loss) (i, zero_images n, labels) = Inr (st', loss')
           \<and> params st' = ff_Autoencoder_init rng"
proof -
  obtain out l where "ff_Autoencoder_forward (ff_Autoencoder_init rng) (ff_flatten (zero_images n)) = Some out"
    and "binary_cross_entropy out (ff_flatten (zero_images n)) = Inr l"
    using ff_forward_zero_images by blast
  then show ?thesis
    using assms by (simp add: ff_train_body_def Let_def ff_zero_world_sel)
qed

lemma ff_train_zero_world:
  assumes "params st = ff_Autoencoder_init rng"
  shows "\<exists>st'. ff_train ff_zero_world st [(zero_images n, labels)] epoch = Inr st'
           \<and> params st' = ff_Autoencoder_init rng"
proof -
  have "params (st\<lparr>training := True\<rparr>) = ff_Autoencoder_init rng"
    using assms by simp
  from ff_train_body_zero_world [OF this, of 0 0 n labels]
  show ?thesis
    by (auto simp: ff_train_def ff_train_loop_def Let_def loop_result_Cons loop_result_Nil
        enumerate_eq_zip)
qed

lemma ff_test_body_zero_world:
  assumes "params st = ff_Autoencoder_init rng"
  shows "\<exists>s'. ff_test_body st folder epoch (disk, loss) (i, zero_images 100, labels) = Inr s'"
proof -
  obtain out l where o: "ff_Autoencoder_forward (ff_Autoencoder_init rng) (ff_flatten (zero_images 100)) = Some out"
    "binary_cross_entropy out (ff_flatten (zero_images 100)) = Inr l"
    "batch_of 784 out" "length out = 100"
    using ff_forward_zero_images by blast
  obtain v1 where v1: "view_images 100 1 28 28 out = Some v1"
    using view_images_total [OF o(3) o(4)] by blast
  obtain v2 where v2: "view_images 100 1 28 28 (ff_flatten (zero_images 100)) = Some v2"
    using view_images_total [OF zero_images_flatten(1) zero_images_flatten(2)] by blast
  show ?thesis
    using assms o(1,2) v1 v2 by (simp add: ff_test_body_def Let_def)
qed

lemma ff_test_zero_world:
  assumes "params st = ff_Autoencoder_init rng"
  shows "\<exists>st' disk'. ff_test st disk [(zero_images 100, l1), (zero_images 100, l2)] folder epoch
           = Inr (st', disk') \<and> params st' = ff_Autoencoder_init rng"
proof -
  let ?st = "st\<lparr>training := False\<rparr>"
  have p: "params ?st = ff_Autoencoder_init rng"
    using assms by simp
  obtain s1 where 1: "ff_test_body ?st folder epoch (disk, 0) (0, zero_images 100, l1) = Inr s1"
    using ff_test_body_zero_world [OF p] by blast
  obtain s2 where 2: "ff_test_body ?st folder epoch s1 (1, zero_images 100, l2) = Inr s2"
    using ff_test_body_zero_world
      [OF p, where folder = folder and epoch = epoch and disk = "fst s1" and loss = "snd s1"
         and i = 1 and labels = l2]
    by auto
  show ?thesis
    using assms 1 2
    by (simp add: ff_test_def Let_def loop_result_Cons loop_result_Nil enumerate_eq_zip
        upt_rec [of 0] upt_rec [of 1] split_def)
qed

lemma ff_main_body_zero_world:
  assumes "params (fst s) = ff_Autoencoder_init rng"
  shows "\<exists>s'. ff_main_body ff_zero_world
          (fst (get_mnist ff_zero_world path cuda batch_size 100))
          (snd (get_mnist ff_zero_world path cuda batch_size 100)) folder True s b = Inr s'
        \<and> params (fst s') = ff_Autoencoder_init rng"
proof -
  obtain st d where s: "s = (st, d)" by (cases s)
  with assms have p: "params st = ff_Autoencoder_init rng" by simp
  obtain st1 where 1: "ff_train ff_zero_world st
      (fst (get_mnist ff_zero_world path cuda batch_size 100) b) b = Inr st1"
    and p1: "params st1 = ff_Autoencoder_init rng"
    using ff_train_zero_world [OF p, of batch_size "replicate batch_size 0" b]
    by (auto simp: ff_zero_world_sel)
  obtain st2 d2 where 2: "ff_test st1 d
      (snd (get_mnist ff_zero_world path cuda batch_size 100) b) folder b = Inr (st2, d2)"
    and p2: "params st2 = ff_Autoencoder_init rng"
    using ff_test_zero_world [OF p1, of d "replicate 100 0" "replicate 100 0" folder b]
    by (auto simp: ff_zero_world_sel)
  show ?thesis
    by (simp add: ff_main_body_def s 1 2 p2)
qed

lemma ff_main_zero_world: "\<exists>st' disk'. ff_main ff_zero_world disk = Inr (st', disk')"
proof -
  let ?loaders = "get_mnist ff_zero_world ''data'' (ff_cuda_is_available ff_zero_world) 64 100"
  let ?body = "ff_main_body ff_zero_world (fst ?loaders) (snd ?loaders) ''feedforward'' True"
  let ?model = "ff_Autoencoder_init (ff_rng ff_zero_world)"
  let ?st = "\<lparr>params = ?model, optimizer = ff_Adam ff_zero_world ?model, training = True\<rparr>"
  have "\<exists>s'. loop_result (?st, disk) (for_each ?body (?st, disk) [1..10]) = Inr s'
          \<and> params (fst s') = ?model"
    by (rule loop_result_total [where P = "\<lambda>s. params (fst s) = ?model"])
      (rule ff_main_body_zero_world, simp_all)
  then show ?thesis
    by (auto simp: ff_main_def Let_def split_def)
qed

section \<open>File names\<close>

lemma digit_inj: "a < 10 \<Longrightarrow> b < 10 \<Longrightarrow> digit a = digit b \<Longrightarrow> a = b"
proof -
  assume a: "a < 10" and b: "b < 10" and eq: "digit a = digit b"
  have d: "distinct ''0123456789''" by simp
  have l: "length ''0123456789'' = 10" by simp
  from eq show "a = b"
    unfolding digit_def using nth_eq_iff_index_eq [OF d, of a b] a b l by simp
qed

lemma digit_not_minus: "n < 10 \<Longrightarrow> digit n \<noteq> CHR ''-''"
proof -
  assume "n < 10"
  then have "digit n \<in> set ''0123456789''"
    unfolding digit_def by (intro nth_mem) simp
  then show ?thesis by auto
qed

lemma str_nat_not_Nil: "str_nat n \<noteq> []"
  by (subst str_nat.simps) simp

lemma str_nat_last: "last (str_nat n) = digit (n mod 10)"
  by (subst str_nat.simps) simp

lemma str_nat_butlast: "butlast (str_nat n) = (if n < 10 then [] else str_nat (n div 10))"
  by (subst str_nat.simps) simp

lemma str_nat_hd: "hd (str_nat n) \<noteq> CHR ''-''"
proof (induction n rule: str_nat.induct)
  case (1 n)
  show ?case
  proof (cases "n < 10")
    case True
    then show ?thesis
      by (subst str_nat.simps) (simp add: digit_not_minus)
  next
    case False
    with 1 have "hd (str_nat (n div 10)) \<noteq> CHR ''-''" by simp
    with False show ?thesis
      by (subst str_nat.simps) (simp add: str_nat_not_Nil)
  qed
qed

lemma str_nat_inj: "str_nat n = str_nat m \<Longrightarrow> n = m"
proof (induction n arbitrary: m rule: str_nat.induct)
  case (1 n)
  from "1.prems" have l: "digit (n mod 10) = digit (m mod 10)"
    using str_nat_last [of n] str_nat_last [of m] by simp
  then have mod: "n mod 10 = m mod 10"
    by (intro digit_inj) simp_all
  from "1.prems" have b: "(if n < 10 then [] else str_nat (n div 10))
      = (if m < 10 then [] else str_nat (m div 10))"
    using str_nat_butlast [of n] str_nat_butlast [of m] by simp
  show ?case
  proof (cases "n < 10")
    case True
    with b have "m < 10" using str_nat_not_Nil [of "m div 10"] by (auto split: if_splits)
    with True mod show ?thesis by simp
  next
    case False
    with b have m: "\<not> m < 10" using str_nat_not_Nil [of "n div 10"] by (auto split: if_splits)
    with b False have "str_nat (n div 10) = str_nat (m div 10)" by simp
    with "1.IH" False have "n div 10 = m div 10" by blast
    with mod show ?thesis
      by (metis div_mult_mod_eq)
  qed
qed

lemma str_int_inj: "str_int a = str_int b \<Longrightarrow> a = b"
proof -
  assume eq: "str_int a = str_int b"
  have neg: "hd (str_int i) = CHR ''-''" if "i < 0" for i
    using that by (simp add: str_int_def)
  have pos: "hd (str_int i) \<noteq> CHR ''-''" if "\<not> i < 0" for i
    using that by (simp add: str_int_def str_nat_hd)
  show "a = b"
  proof (cases "a < 0")
    case True
    with eq neg pos have "b < 0" by metis
    with True eq have "str_nat (nat (- a)) = str_nat (nat (- b))"
      by (simp add: str_int_def)
    then have "nat (- a) = nat (- b)" by (rule str_nat_inj)
    with True \<open>b < 0\<close> show ?thesis by simp
  next
    case False
    with eq neg pos have b: "\<not> b < 0" by metis
    with False eq have "str_nat (nat a) = str_nat (nat b)"
      by (simp add: str_int_def)
    then have "nat a = nat b" by (rule str_nat_inj)
    with False b show ?thesis by simp
  qed
qed

lemma str_int_1: "str_int 1 = ''1''"
  by (simp add: str_int_def str_nat.simps digit_def)

lemma str_int_1024: "str_int 1024 = ''1024''"
  by (simp add: str_int_def str_nat.simps digit_def)

section \<open>The loss accumulator\<close>














section \<open>The evaluation phase\<close>

lemma conv_test_length:
  assumes "conv_test E model st disk test_loader folder epoch = Inr (st', disk')"
  shows "length disk' = length disk + (if test_loader = [] then 0 else 2)"
proof (cases "test_loader = []")
  case True
  with assms show ?thesis
    by (auto simp: conv_test_def Let_def loop_result_Nil)
next
  case False
  from conv_test_paths [OF assms False] have "length (map fst disk') = length (map fst disk) + 2"
    by simp
  with False show ?thesis by simp
qed

lemma res_test_length:
  assumes "res_test E model st disk test_loader folder epoch = Inr (st', disk')"
  shows "length disk' = length disk + (if test_loader = [] then 0 else 2)"
proof (cases "test_loader = []")
  case True
  with assms show ?thesis
    by (auto simp: res_test_def Let_def loop_result_Nil)
next
  case False
  from res_test_paths [OF assms False] have "length (map fst disk') = length (map fst disk) + 2"
    by simp
  with False show ?thesis by simp
qed

lemma cond_test_length:
  assumes "cond_test E model st disk test_loader folder epoch = Inr (st', disk')"
  shows "length disk' = length disk + (if test_loader = [] then 0 else 2)"
proof (cases "test_loader = []")
  case True
  with assms show ?thesis
    by (auto simp: cond_test_def Let_def loop_result_Nil)
next
  case False
  from cond_test_paths [OF assms False] have "length (map fst disk') = length (map fst disk) + 2"
    by simp
  with False show ?thesis by simp
qed

lemma ff_test_length:
  assumes "ff_test st disk test_loader folder epoch = Inr (st', disk')"
  shows "length disk' = length disk + (if test_loader = [] then 0 else 2)"
proof (cases "test_loader = []")
  case True
  with assms show ?thesis
    by (auto simp: ff_test_def Let_def loop_result_Nil)
next
  case False
  from ff_test_paths [OF assms False] have "length (map fst disk') = length (map fst disk) + 2"
    by simp
  with False show ?thesis by simp
qed

lemma cond_init_projr: "cond_Autoencoder_init = Inr (projr cond_Autoencoder_init)"
proof -
  obtain m where m: "cond_Autoencoder_init = Inr m"
    using cond_init_parts by blast
  then show ?thesis
    by (metis sum.sel(2))
qed






section \<open>The files of a run\<close>

lemma view_whole_shape:
  "view_shape [100, 3, 32, 32] (Some [100, 3, 32, 32]) = Some [100, 3, 32, 32]"
  by (simp add: view_shape_def Let_def)

lemma res_test_first_epoch:
  "res_test zero_world (res_Autoencoder_init 1024) start []
     [(Some [100, 3, 32, 32], replicate 100 0)]
     (''residual_cifar_'' @ str_int 1024 @ ''_bottle'') 1
   = Inr (start\<lparr>training := False\<rparr>,
          [(''residual_cifar_1024_bottle/1.png'', Image (Some [100, 3, 32, 32]) 10),
           (''residual_cifar_1024_bottle/1baseline.png'', Image (Some [100, 3, 32, 32]) 10)])"
  by (simp add: res_test_def res_test_body_def Let_def loop_result_Cons loop_result_Nil
      enumerate_eq_zip zero_world_sel res_roundtrip zero_elements_length shapes_sel
      view_whole_shape str_int_1 str_int_1024)

lemma zero_world_test_loader:
  "list_all (\<lambda>epoch. snd (get_cifar10 zero_world ''data'' (cuda_is_available zero_world) n 100) epoch \<noteq> [])
     epochs"
  by (simp add: zero_world_sel list_all_iff)

lemma ff_zero_world_test_loader:
  "list_all (\<lambda>epoch. snd (get_mnist ff_zero_world ''data'' (ff_cuda_is_available ff_zero_world) n 100) epoch \<noteq> [])
     epochs"
  by (simp add: ff_zero_world_sel list_all_iff)

lemma folder_inj:
  "''residual_cifar_'' @ str_int a @ ''_bottle'' = ''residual_cifar_'' @ str_int b @ ''_bottle''
   \<Longrightarrow> a = b"
  by (rule str_int_inj) (simp only: same_append_eq append_same_eq)

section \<open>The claims\<close>

text \<open>
  C1. In the conditional variant, \<^verbatim>\<open>Autoencoder.conditional_forward(x, y)\<close> is claimed to
  pass the label \<open>y\<close> to every normalization layer of the encoder and of the decoder.
  The code does not: on a batch of two images with the labels \<open>[3, 7]\<close> (in training
  mode, as \<^verbatim>\<open>train\<close> calls it), the twelve
  normalization layers of the encoder are called with the default label \<open>[0, 0]\<close>, and
  only the twelve of the decoder with \<open>[3, 7]\<close>.
\<close>

theorem conditional_forward_encoder_gets_default_label:
  "map_sum id snd
     (case cond_Autoencoder_init of
        Inl e \<Rightarrow> Inl e
      | Inr model \<Rightarrow> cond_Autoencoder_conditional_forward (shapes True) model (Some [2, 3, 32, 32]) [3, 7])
   = Inr (replicate 12 [0, 0] @ replicate 12 [3, 7])"
proof -
  obtain m where m: "cond_Autoencoder_init = Inr m"
    using cond_init_parts by blast
  have "torch_size (shapes True) (Some [2, 3, 32, 32]) = 2 # [3, 32, 32]"
    by (simp add: shapes_sel size_shape_def)
  moreover have "replicate 2 (0::int) = [0, 0]"
    by (simp add: numeral_eq_Suc)
  ultimately have "map_sum id snd
      (cond_Autoencoder_conditional_forward (shapes True) m (Some [2, 3, 32, 32]) [3, 7])
    = Inr (replicate 12 [0, 0] @ replicate 12 [3, 7])"
    using cond_autoencoder_labels [of "shapes True" "Some [2, 3, 32, 32]" 2 "[3, 32, 32]" m "[3, 7]"]
    by (simp add: zeros_long_def)
  then show ?thesis
    by (simp only: m sum.case)
qed

text \<open>
  C2. For every module of the conditional script that has a \<^verbatim>\<open>conditional_forward\<close>
  (the basic block, the activation-and-normalization module, the encoder, the decoder
  and the autoencoder) and every tensor \<open>x\<close> with a first dimension, \<^verbatim>\<open>forward(x)\<close>
  returns what \<^verbatim>\<open>conditional_forward(x, y)\<close> returns for the all-zero label vector \<open>y\<close>
  of the batch length of \<open>x\<close>, whatever the library computes.
\<close>

theorem forward_is_conditional_forward_at_class_zero:
  assumes "torch_size T x = batch_size # rest"
  shows "cond_BasicBlock_forward T block x
           = Inr (cond_BasicBlock_conditional_forward T block x (replicate batch_size 0))
       \<and> cond_ELU_BatchNorm2d_forward T eb x
           = Inr (cond_ELU_BatchNorm2d_conditional_forward T eb x (replicate batch_size 0))
       \<and> cond_ResidualEncoder_forward T encoder x
           = Inr (cond_ResidualEncoder_conditional_forward T encoder x (replicate batch_size 0))
       \<and> cond_ResidualDecoder_forward T decoder x
           = Inr (cond_ResidualDecoder_conditional_forward T decoder x (replicate batch_size 0))
       \<and> cond_Autoencoder_forward T model x
           = cond_Autoencoder_conditional_forward T model x (replicate batch_size 0)"
  using assms
  by (simp add: cond_BasicBlock_forward_def cond_ELU_BatchNorm2d_forward_def
      cond_ResidualEncoder_forward_def cond_ResidualDecoder_forward_def
      cond_Autoencoder_forward_def zeros_long_def)

theorem forward_is_conditional_forward_at_class_zero_witness:
  "torch_size (shapes True) (Some [2, 3, 32, 32]) = 2 # [3, 32, 32]
   \<and> cond_BasicBlock_forward (shapes True) (cond_BasicBlock_init 3) (Some [2, 3, 32, 32])
       = Inr (cond_BasicBlock_conditional_forward (shapes True) (cond_BasicBlock_init 3)
                (Some [2, 3, 32, 32]) [0, 0])
   \<and> cond_Autoencoder_forward (shapes True) (projr cond_Autoencoder_init) (Some [2, 3, 32, 32])
       = cond_Autoencoder_conditional_forward (shapes True) (projr cond_Autoencoder_init)
           (Some [2, 3, 32, 32]) [0, 0]"
proof -
  have h: "torch_size (shapes True) (Some [2, 3, 32, 32]) = 2 # [3, 32, 32]"
    by (simp add: shapes_sel size_shape_def)
  have r: "replicate 2 (0::int) = [0, 0]"
    by (simp add: numeral_eq_Suc)
  from forward_is_conditional_forward_at_class_zero
    [OF h, where block = "cond_BasicBlock_init 3" and model = "projr cond_Autoencoder_init"] h
  show ?thesis
    unfolding r by blast
qed

text \<open>
  C3 (counterexample). In training mode, the mode of a freshly built module and the
  one \<^verbatim>\<open>train\<close> sets, the residual autoencoder returns no tensor on a batch of one
  3x32x32 image: its decoder starts with \<^verbatim>\<open>BatchNorm2d(256)\<close> on the latent of shape
  \<open>[1, 256, 1, 1]\<close>, a single value per channel, which the library refuses.
\<close>

theorem residual_single_image_in_training_mode:
  "res_Autoencoder_forward (shapes True) (res_Autoencoder_init 1024) (Some [1, 3, 32, 32]) = None"
  by (rule res_single_image_training)

text \<open>
  C3. For every autoencoder variant, the decoder applied to the encoder's output on an
  input of the declared shape returns a tensor of the input's shape: batches of
  3x32x32 images for the convolutional and the conditional network in either mode and
  for the residual network in evaluation mode, and in training mode for every batch
  but that of a single image, which the residual network refuses (by the library's
  shape rules); batches of 784-vectors for the feedforward network (freshly initialized
  from any samples). The \<^verbatim>\<open>forward\<close> methods call the layers only: no shape is
  compared in the scripts.
\<close>

theorem shape_round_trip:
  assumes "batch_of 784 v"
  shows "conv_Autoencoder_forward (shapes mode) conv_Autoencoder_init (Some [n, 3, 32, 32])
           = Some [n, 3, 32, 32]
       \<and> res_Autoencoder_forward (shapes False) (res_Autoencoder_init bottleneck)
             (Some [n, 3, 32, 32])
           = Some [n, 3, 32, 32]
       \<and> res_Autoencoder_forward (shapes True) (res_Autoencoder_init bottleneck)
             (Some [n, 3, 32, 32])
           = (if n = 1 then None else Some [n, 3, 32, 32])
       \<and> (\<exists>model. cond_Autoencoder_init = Inr model
            \<and> map_sum id fst (cond_Autoencoder_forward (shapes mode) model (Some [n, 3, 32, 32]))
                = Inr (Some [n, 3, 32, 32]))
       \<and> (\<exists>output. ff_Autoencoder_forward (ff_Autoencoder_init rng) v = Some output
            \<and> length output = length v \<and> batch_of 784 output)"
proof -
  have "res_Autoencoder_forward (shapes False) (res_Autoencoder_init bottleneck)
          (Some [n, 3, 32, 32]) = Some [n, 3, 32, 32]"
    by (rule res_roundtrip) simp
  moreover have "res_Autoencoder_forward (shapes True) (res_Autoencoder_init bottleneck)
          (Some [n, 3, 32, 32]) = (if n = 1 then None else Some [n, 3, 32, 32])"
    by (cases "n = 1") (simp_all add: res_roundtrip res_single_image_training [unfolded One_nat_def])
  ultimately show ?thesis
    using conv_roundtrip cond_roundtrip ff_autoencoder_shape [OF assms]
    by blast
qed

theorem shape_round_trip_witness:
  "batch_of 784 [replicate 784 0]
   \<and> conv_Autoencoder_forward (shapes True) conv_Autoencoder_init (Some [100, 3, 32, 32])
       = Some [100, 3, 32, 32]
   \<and> res_Autoencoder_forward (shapes False) (res_Autoencoder_init 1024) (Some [100, 3, 32, 32])
       = Some [100, 3, 32, 32]
   \<and> res_Autoencoder_forward (shapes True) (res_Autoencoder_init 1024) (Some [100, 3, 32, 32])
       = Some [100, 3, 32, 32]
   \<and> (\<exists>output. ff_Autoencoder_forward (ff_Autoencoder_init (\<lambda>k. (\<lambda>r c. 0, \<lambda>r. 0)))
                  [replicate 784 0] = Some output
        \<and> length output = length [replicate 784 (0::real)] \<and> batch_of 784 output)"
proof -
  have h: "batch_of 784 [replicate 784 0]"
    by (simp add: batch_of_def)
  have i: "(if (100::nat) = 1 then None else Some [100::nat, 3, 32, 32]) = Some [100, 3, 32, 32]"
    by simp
  from shape_round_trip
    [OF h, where n = 100 and bottleneck = 1024 and mode = True
       and rng = "\<lambda>k. (\<lambda>r c. 0, \<lambda>r. 0)"] h
  show ?thesis
    unfolding i by blast
qed



text \<open>
  C5. A batch of 100 all-zero 1x28x28 images, flattened as \<^verbatim>\<open>train\<close> and \<^verbatim>\<open>test\<close> do,
  goes through a freshly initialized feedforward autoencoder (whatever the initial
  samples) without failure and gives 100 rows of 784 values, each in \<open>[0, 1]\<close>.
\<close>

theorem feedforward_zero_batch:
  "\<exists>output.
     ff_Autoencoder_forward (ff_Autoencoder_init rng)
       (ff_flatten (replicate 100 (replicate 1 (replicate 28 (replicate 28 0))))) = Some output
     \<and> length output = 100
     \<and> list_all (\<lambda>row. length row = 784) output
     \<and> list_all (list_all (\<lambda>v. 0 \<le> v \<and> v \<le> 1)) output"
  using ff_autoencoder_shape [OF ff_flatten_zeros [of 100], where rng = rng]
  by (simp add: batch_of_def unit_range_def ff_flatten_def)

text \<open>
  C6. A \<^verbatim>\<open>ConditionalBatchNorm2d\<close> constructed with feature count \<open>features\<close> and
  \<open>classes\<close> classes holds a normalization without affine parameters and an embedding
  of \<open>classes\<close> rows of \<open>features * 2\<close> entries. In every row, each of the first
  \<open>features\<close> entries (the scale) is the sample that \<^verbatim>\<open>uniform_(0, 1)\<close> draws for
  that entry, hence in \<open>[0, 1]\<close>, and each of the last \<open>features\<close> entries (the shift) is zero. The forward pass applies
  scale and shift to the output of the normalization.
\<close>

theorem conditional_batch_norm_init:
  assumes "\<And>c j. 0 \<le> uniform c j \<and> uniform c j \<le> 1"
    and "c < classes" and "j < features"
  shows "cond_ConditionalBatchNorm2d_init features classes
           = ConditionalBatchNorm2d features (BatchNorm2d features False)
               (Embedding classes (features * 2))
       \<and> length (cond_ConditionalBatchNorm2d_init_weight normal uniform features classes) = classes
       \<and> length (cond_ConditionalBatchNorm2d_init_weight normal uniform features classes ! c)
           = features * 2
       \<and> cond_ConditionalBatchNorm2d_init_weight normal uniform features classes ! c ! j
           = uniform c j
       \<and> 0 \<le> cond_ConditionalBatchNorm2d_init_weight normal uniform features classes ! c ! j
       \<and> cond_ConditionalBatchNorm2d_init_weight normal uniform features classes ! c ! j \<le> 1
       \<and> cond_ConditionalBatchNorm2d_init_weight normal uniform features classes ! c ! (features + j) = 0
       \<and> fst (cond_ConditionalBatchNorm2d_forward T
                (cond_ConditionalBatchNorm2d_init features classes) x y)
           = torch_add T
               (torch_mul T
                  (torch_view T [-1, int features, 1, 1]
                     (fst (torch_chunk2 T 1 (nn_Embedding T classes (features * 2) y))))
                  (nn_BatchNorm2d T features False x))
               (torch_view T [-1, int features, 1, 1]
                  (snd (torch_chunk2 T 1 (nn_Embedding T classes (features * 2) y))))"
  using assms
  by (simp add: cond_ConditionalBatchNorm2d_init_def init_weight_length init_weight_row
      nth_append split_def Let_def)

theorem conditional_batch_norm_init_witness:
  "(\<forall>c j. (0::real) \<le> 1 / 2 \<and> (1::real) / 2 \<le> 1) \<and> (3::nat) < 10 \<and> (5::nat) < 64
   \<and> length (cond_ConditionalBatchNorm2d_init_weight (\<lambda>c j. 0) (\<lambda>c j. 1 / 2) 64 10) = 10
   \<and> cond_ConditionalBatchNorm2d_init_weight (\<lambda>c j. 0) (\<lambda>c j. 1 / 2) 64 10 ! 3 ! 5 = 1 / 2
   \<and> 0 \<le> cond_ConditionalBatchNorm2d_init_weight (\<lambda>c j. 0) (\<lambda>c j. 1 / 2) 64 10 ! 3 ! 5
   \<and> cond_ConditionalBatchNorm2d_init_weight (\<lambda>c j. 0) (\<lambda>c j. 1 / 2) 64 10 ! 3 ! 5 \<le> 1
   \<and> cond_ConditionalBatchNorm2d_init_weight (\<lambda>c j. 0) (\<lambda>c j. 1 / 2) 64 10 ! 3 ! (64 + 5) = 0"
proof -
  have u: "\<And>c j::nat. (0::real) \<le> 1 / 2 \<and> (1::real) / 2 \<le> 1" by simp
  have c: "(3::nat) < 10" and j: "(5::nat) < 64" by simp_all
  from conditional_batch_norm_init
    [where uniform = "\<lambda>c j. 1 / 2" and normal = "\<lambda>c j. 0" and T = "shapes True"
       and x = "Some [1, 64, 8, 8]" and y = "[0]", OF u c j] u c j
  show ?thesis by blast
qed

text \<open>
  C8. In each of the four scripts, a call of \<^verbatim>\<open>test\<close> that returns leaves the parameter
  values and the optimizer as they were (only the mode flag is set to evaluation), and
  the disk it leaves is the one \<^verbatim>\<open>test\<close> leaves on the first batch alone: two image
  files are written when there is a first batch, none for any later batch, and none
  when the loader is empty.
\<close>

theorem evaluation_keeps_parameters_and_writes_once:
  "(conv_test E conv_model st disk test_loader folder epoch = Inr (st', disk') \<longrightarrow>
      params st' = params st \<and> optimizer st' = optimizer st
      \<and> conv_test E conv_model st disk (take 1 test_loader) folder epoch = Inr (st', disk')
      \<and> length disk' = length disk + (if test_loader = [] then 0 else 2))
   \<and> (res_test E res_model st disk test_loader folder epoch = Inr (st', disk') \<longrightarrow>
      params st' = params st \<and> optimizer st' = optimizer st
      \<and> res_test E res_model st disk (take 1 test_loader) folder epoch = Inr (st', disk')
      \<and> length disk' = length disk + (if test_loader = [] then 0 else 2))
   \<and> (cond_test E cond_model st disk test_loader folder epoch = Inr (st', disk') \<longrightarrow>
      params st' = params st \<and> optimizer st' = optimizer st
      \<and> cond_test E cond_model st disk (take 1 test_loader) folder epoch = Inr (st', disk')
      \<and> length disk' = length disk + (if test_loader = [] then 0 else 2))
   \<and> (ff_test ff_st ff_disk ff_loader folder epoch = Inr (ff_st', ff_disk') \<longrightarrow>
      params ff_st' = params ff_st \<and> optimizer ff_st' = optimizer ff_st
      \<and> ff_test ff_st ff_disk (take 1 ff_loader) folder epoch = Inr (ff_st', ff_disk')
      \<and> length ff_disk' = length ff_disk + (if ff_loader = [] then 0 else 2))"
proof (intro conjI impI)
  assume h: "conv_test E conv_model st disk test_loader folder epoch = Inr (st', disk')"
  from conv_test_first_batch [OF h] show "params st' = params st" "optimizer st' = optimizer st"
    "conv_test E conv_model st disk (take 1 test_loader) folder epoch = Inr (st', disk')"
    by simp_all
  from conv_test_length [OF h]
  show "length disk' = length disk + (if test_loader = [] then 0 else 2)" .
next
  assume h: "res_test E res_model st disk test_loader folder epoch = Inr (st', disk')"
  from res_test_first_batch [OF h] show "params st' = params st" "optimizer st' = optimizer st"
    "res_test E res_model st disk (take 1 test_loader) folder epoch = Inr (st', disk')"
    by simp_all
  from res_test_length [OF h]
  show "length disk' = length disk + (if test_loader = [] then 0 else 2)" .
next
  assume h: "cond_test E cond_model st disk test_loader folder epoch = Inr (st', disk')"
  from cond_test_first_batch [OF h] show "params st' = params st" "optimizer st' = optimizer st"
    "cond_test E cond_model st disk (take 1 test_loader) folder epoch = Inr (st', disk')"
    by simp_all
  from cond_test_length [OF h]
  show "length disk' = length disk + (if test_loader = [] then 0 else 2)" .
next
  assume h: "ff_test ff_st ff_disk ff_loader folder epoch = Inr (ff_st', ff_disk')"
  from ff_test_first_batch [OF h] show "params ff_st' = params ff_st"
    "optimizer ff_st' = optimizer ff_st"
    "ff_test ff_st ff_disk (take 1 ff_loader) folder epoch = Inr (ff_st', ff_disk')"
    by simp_all
  from ff_test_length [OF h]
  show "length ff_disk' = length ff_disk + (if ff_loader = [] then 0 else 2)" .
qed

theorem evaluation_keeps_parameters_and_writes_once_witness:
  "(\<exists>st' disk'.
      conv_test zero_world conv_Autoencoder_init start []
        [(Some [100, 3, 32, 32], replicate 100 0), (Some [100, 3, 32, 32], replicate 100 0)]
        ''convolutional_cifar'' 1 = Inr (st', disk')
      \<and> params st' = params start
      \<and> conv_test zero_world conv_Autoencoder_init start []
        (take 1 [(Some [100, 3, 32, 32], replicate 100 0), (Some [100, 3, 32, 32], replicate 100 0)])
        ''convolutional_cifar'' 1 = Inr (st', disk')
      \<and> length disk' = 2)
   \<and> (\<exists>st' disk'.
      res_test zero_world (res_Autoencoder_init 1024) start []
        [(Some [100, 3, 32, 32], replicate 100 0), (Some [100, 3, 32, 32], replicate 100 0)]
        ''residual_cifar_1024_bottle'' 1 = Inr (st', disk')
      \<and> params st' = params start
      \<and> res_test zero_world (res_Autoencoder_init 1024) start []
        (take 1 [(Some [100, 3, 32, 32], replicate 100 0), (Some [100, 3, 32, 32], replicate 100 0)])
        ''residual_cifar_1024_bottle'' 1 = Inr (st', disk')
      \<and> length disk' = 2)
   \<and> (\<exists>st' disk'.
      cond_test zero_world (projr cond_Autoencoder_init) start []
        [(Some [100, 3, 32, 32], replicate 100 0), (Some [100, 3, 32, 32], replicate 100 0)]
        ''conditional'' 1 = Inr (st', disk')
      \<and> params st' = params start
      \<and> cond_test zero_world (projr cond_Autoencoder_init) start []
        (take 1 [(Some [100, 3, 32, 32], replicate 100 0), (Some [100, 3, 32, 32], replicate 100 0)])
        ''conditional'' 1 = Inr (st', disk')
      \<and> length disk' = 2)
   \<and> (\<exists>st' disk'.
      ff_test \<lparr>params = ff_Autoencoder_init zero_sampler, optimizer = (), training = True\<rparr> []
        [(zero_images 100, replicate 100 0), (zero_images 100, replicate 100 0)]
        ''feedforward'' 1 = Inr (st', disk')
      \<and> params st' = ff_Autoencoder_init zero_sampler
      \<and> ff_test \<lparr>params = ff_Autoencoder_init zero_sampler, optimizer = (), training = True\<rparr> []
        (take 1 [(zero_images 100, replicate 100 0), (zero_images 100, replicate 100 0)])
        ''feedforward'' 1 = Inr (st', disk')
      \<and> length disk' = 2)"
proof (intro conjI)
  let ?tests = "[(Some [100, 3, 32, 32], replicate 100 0), (Some [100, 3, 32, 32], replicate 100 (0::int))]"
  obtain st1 d1 where h: "conv_test zero_world conv_Autoencoder_init start [] ?tests
      ''convolutional_cifar'' 1 = Inr (st1, d1)"
    using conv_test_zero_world by blast
  from evaluation_keeps_parameters_and_writes_once [THEN conjunct1, rule_format, OF h] h
  show "\<exists>st' disk'.
      conv_test zero_world conv_Autoencoder_init start [] ?tests ''convolutional_cifar'' 1 = Inr (st', disk')
      \<and> params st' = params start
      \<and> conv_test zero_world conv_Autoencoder_init start [] (take 1 ?tests)
        ''convolutional_cifar'' 1 = Inr (st', disk')
      \<and> length disk' = 2"
    by (intro exI [of _ st1] exI [of _ d1]) simp
next
  let ?tests = "[(Some [100, 3, 32, 32], replicate 100 0), (Some [100, 3, 32, 32], replicate 100 (0::int))]"
  obtain st1 d1 where h: "res_test zero_world (res_Autoencoder_init 1024) start [] ?tests
      ''residual_cifar_1024_bottle'' 1 = Inr (st1, d1)"
    using res_test_zero_world by blast
  from evaluation_keeps_parameters_and_writes_once
    [THEN conjunct2, THEN conjunct1, rule_format, OF h] h
  show "\<exists>st' disk'.
      res_test zero_world (res_Autoencoder_init 1024) start [] ?tests
        ''residual_cifar_1024_bottle'' 1 = Inr (st', disk')
      \<and> params st' = params start
      \<and> res_test zero_world (res_Autoencoder_init 1024) start [] (take 1 ?tests)
        ''residual_cifar_1024_bottle'' 1 = Inr (st', disk')
      \<and> length disk' = 2"
    by (intro exI [of _ st1] exI [of _ d1]) simp
next
  let ?tests = "[(Some [100, 3, 32, 32], replicate 100 0), (Some [100, 3, 32, 32], replicate 100 (0::int))]"
  obtain st1 d1 where h: "cond_test zero_world (projr cond_Autoencoder_init) start [] ?tests
      ''conditional'' 1 = Inr (st1, d1)"
    using cond_test_zero_world [OF cond_init_projr] by blast
  from evaluation_keeps_parameters_and_writes_once
    [THEN conjunct2, THEN conjunct2, THEN conjunct1, rule_format, OF h] h
  show "\<exists>st' disk'.
      cond_test zero_world (projr cond_Autoencoder_init) start [] ?tests ''conditional'' 1
        = Inr (st', disk')
      \<and> params st' = params start
      \<and> cond_test zero_world (projr cond_Autoencoder_init) start [] (take 1 ?tests)
        ''conditional'' 1 = Inr (st', disk')
      \<and> length disk' = 2"
    by (intro exI [of _ st1] exI [of _ d1]) simp
next
  let ?tests = "[(zero_images 100, replicate 100 0), (zero_images 100, replicate 100 (0::int))]"
  let ?st = "\<lparr>params = ff_Autoencoder_init zero_sampler, optimizer = (), training = True\<rparr>"
  have p: "params ?st = ff_Autoencoder_init zero_sampler" by simp
  obtain st1 d1 where h: "ff_test ?st [] ?tests ''feedforward'' 1 = Inr (st1, d1)"
    using ff_test_zero_world [OF p] by blast
  from evaluation_keeps_parameters_and_writes_once
    [THEN conjunct2, THEN conjunct2, THEN conjunct2, rule_format, OF h] h
  show "\<exists>st' disk'.
      ff_test ?st [] ?tests ''feedforward'' 1 = Inr (st', disk')
      \<and> params st' = ff_Autoencoder_init zero_sampler
      \<and> ff_test ?st [] (take 1 ?tests) ''feedforward'' 1 = Inr (st', disk')
      \<and> length disk' = 2"
    by (intro exI [of _ st1] exI [of _ d1]) simp
qed



text \<open>
  C7. The claim gives the originals grid of every script the name \<open>baseline{N}.png\<close>.
  The residual script does not use it: in its first epoch, \<^verbatim>\<open>test\<close> writes
  \<open>residual_cifar_1024_bottle/1.png\<close> and \<open>residual_cifar_1024_bottle/1baseline.png\<close>, and no
  file \<open>residual_cifar_1024_bottle/baseline1.png\<close>.
\<close>

theorem residual_script_names_originals_differently:
  "map fst (snd (projr
     (res_test zero_world (res_Autoencoder_init 1024) start []
        [(Some [100, 3, 32, 32], replicate 100 0)]
        (''residual_cifar_'' @ str_int 1024 @ ''_bottle'') 1)))
   = [''residual_cifar_1024_bottle/1.png'', ''residual_cifar_1024_bottle/1baseline.png'']
   \<and> ''residual_cifar_1024_bottle/baseline1.png''
       \<notin> set (map fst (snd (projr
           (res_test zero_world (res_Autoencoder_init 1024) start []
              [(Some [100, 3, 32, 32], replicate 100 0)]
              (''residual_cifar_'' @ str_int 1024 @ ''_bottle'') 1))))"
  by (simp only: res_test_first_epoch sum.sel snd_conv) simp

text \<open>
  C7, as the scripts have it. In a run of \<^verbatim>\<open>main\<close> that completes, with a test loader that
  is not empty in any epoch, the files written are, for each epoch \<open>N\<close> in turn, the
  reconstruction grid \<open>{N}.png\<close>, the originals grid and the checkpoint \<open>{N}.pt\<close>, all in
  the script's output directory. The originals grid is named \<open>baseline{N}.png\<close> by the
  convolutional and the feedforward script, and \<open>{N}baseline.png\<close> by the residual and
  the conditional script.
\<close>

theorem epoch_file_names:
  "(conv_main E disk = Inr (st', disk')
      \<and> list_all (\<lambda>epoch. snd (get_cifar10 E ''data'' (cuda_is_available E) 128 100) epoch \<noteq> [])
           [1..20] \<longrightarrow>
    map fst disk' = map fst disk
      @ concat (map (\<lambda>epoch. [''convolutional_cifar'' @ ''/'' @ str_int epoch @ ''.png'',
                                ''convolutional_cifar'' @ ''/baseline'' @ str_int epoch @ ''.png'',
                                ''convolutional_cifar'' @ ''/'' @ str_int epoch @ ''.pt''])
                  [1..20]))
   \<and> (res_main E bottleneck disk = Inr (st', disk')
      \<and> list_all (\<lambda>epoch. snd (get_cifar10 E ''data'' (cuda_is_available E) 128 100) epoch \<noteq> [])
           [1..20] \<longrightarrow>
    map fst disk' = map fst disk
      @ concat (map (\<lambda>epoch.
          [(''residual_cifar_'' @ str_int bottleneck @ ''_bottle'') @ ''/'' @ str_int epoch @ ''.png'',
           (''residual_cifar_'' @ str_int bottleneck @ ''_bottle'') @ ''/'' @ str_int epoch
             @ ''baseline.png'',
           (''residual_cifar_'' @ str_int bottleneck @ ''_bottle'') @ ''/'' @ str_int epoch @ ''.pt''])
                  [1..20]))
   \<and> (cond_main E disk = Inr (st', disk')
      \<and> list_all (\<lambda>epoch. snd (get_cifar10 E ''data'' (cuda_is_available E) 64 100) epoch \<noteq> [])
           [1..10] \<longrightarrow>
    map fst disk' = map fst disk
      @ concat (map (\<lambda>epoch. [''conditional'' @ ''/'' @ str_int epoch @ ''.png'',
                                ''conditional'' @ ''/'' @ str_int epoch @ ''baseline.png'',
                                ''conditional'' @ ''/'' @ str_int epoch @ ''.pt''])
                  [1..10]))
   \<and> (ff_main F ff_disk = Inr (ff_st', ff_disk')
      \<and> list_all (\<lambda>epoch. snd (get_mnist F ''data'' (ff_cuda_is_available F) 64 100) epoch \<noteq> [])
           [1..10] \<longrightarrow>
    map fst ff_disk' = map fst ff_disk
      @ concat (map (\<lambda>epoch. [''feedforward'' @ ''/'' @ str_int epoch @ ''.png'',
                                ''feedforward'' @ ''/baseline'' @ str_int epoch @ ''.png'',
                                ''feedforward'' @ ''/'' @ str_int epoch @ ''.pt''])
                  [1..10]))"
proof (intro conjI impI)
  assume "conv_main E disk = Inr (st', disk')
      \<and> list_all (\<lambda>epoch. snd (get_cifar10 E ''data'' (cuda_is_available E) 128 100) epoch \<noteq> [])
           [1..20]"
  then show "map fst disk' = map fst disk
      @ concat (map (\<lambda>epoch. [''convolutional_cifar'' @ ''/'' @ str_int epoch @ ''.png'',
                                ''convolutional_cifar'' @ ''/baseline'' @ str_int epoch @ ''.png'',
                                ''convolutional_cifar'' @ ''/'' @ str_int epoch @ ''.pt''])
                  [1..20])"
    using conv_main_paths by blast
next
  assume "res_main E bottleneck disk = Inr (st', disk')
      \<and> list_all (\<lambda>epoch. snd (get_cifar10 E ''data'' (cuda_is_available E) 128 100) epoch \<noteq> [])
           [1..20]"
  then show "map fst disk' = map fst disk
      @ concat (map (\<lambda>epoch.
          [(''residual_cifar_'' @ str_int bottleneck @ ''_bottle'') @ ''/'' @ str_int epoch @ ''.png'',
           (''residual_cifar_'' @ str_int bottleneck @ ''_bottle'') @ ''/'' @ str_int epoch
             @ ''baseline.png'',
           (''residual_cifar_'' @ str_int bottleneck @ ''_bottle'') @ ''/'' @ str_int epoch @ ''.pt''])
                  [1..20])"
    using res_main_paths by blast
next
  assume "cond_main E disk = Inr (st', disk')
      \<and> list_all (\<lambda>epoch. snd (get_cifar10 E ''data'' (cuda_is_available E) 64 100) epoch \<noteq> [])
           [1..10]"
  then show "map fst disk' = map fst disk
      @ concat (map (\<lambda>epoch. [''conditional'' @ ''/'' @ str_int epoch @ ''.png'',
                                ''conditional'' @ ''/'' @ str_int epoch @ ''baseline.png'',
                                ''conditional'' @ ''/'' @ str_int epoch @ ''.pt''])
                  [1..10])"
    using cond_main_paths by blast
next
  assume "ff_main F ff_disk = Inr (ff_st', ff_disk')
      \<and> list_all (\<lambda>epoch. snd (get_mnist F ''data'' (ff_cuda_is_available F) 64 100) epoch \<noteq> [])
           [1..10]"
  then show "map fst ff_disk' = map fst ff_disk
      @ concat (map (\<lambda>epoch. [''feedforward'' @ ''/'' @ str_int epoch @ ''.png'',
                                ''feedforward'' @ ''/baseline'' @ str_int epoch @ ''.png'',
                                ''feedforward'' @ ''/'' @ str_int epoch @ ''.pt''])
                  [1..10])"
    using ff_main_paths by blast
qed

theorem epoch_file_names_witness:
  "(\<exists>st' disk'. conv_main zero_world [] = Inr (st', disk')
      \<and> map fst disk'
          = concat (map (\<lambda>epoch. [''convolutional_cifar'' @ ''/'' @ str_int epoch @ ''.png'',
                                   ''convolutional_cifar'' @ ''/baseline'' @ str_int epoch @ ''.png'',
                                   ''convolutional_cifar'' @ ''/'' @ str_int epoch @ ''.pt''])
                     [1..20]))
   \<and> (\<exists>st' disk'. res_main zero_world 1024 [] = Inr (st', disk')
      \<and> map fst disk'
          = concat (map (\<lambda>epoch.
              [(''residual_cifar_'' @ str_int 1024 @ ''_bottle'') @ ''/'' @ str_int epoch @ ''.png'',
               (''residual_cifar_'' @ str_int 1024 @ ''_bottle'') @ ''/'' @ str_int epoch
                 @ ''baseline.png'',
               (''residual_cifar_'' @ str_int 1024 @ ''_bottle'') @ ''/'' @ str_int epoch @ ''.pt''])
                     [1..20]))
   \<and> (\<exists>st' disk'. cond_main zero_world [] = Inr (st', disk')
      \<and> map fst disk'
          = concat (map (\<lambda>epoch. [''conditional'' @ ''/'' @ str_int epoch @ ''.png'',
                                   ''conditional'' @ ''/'' @ str_int epoch @ ''baseline.png'',
                                   ''conditional'' @ ''/'' @ str_int epoch @ ''.pt''])
                     [1..10]))
   \<and> (\<exists>st' disk'. ff_main ff_zero_world [] = Inr (st', disk')
      \<and> map fst disk'
          = concat (map (\<lambda>epoch. [''feedforward'' @ ''/'' @ str_int epoch @ ''.png'',
                                   ''feedforward'' @ ''/baseline'' @ str_int epoch @ ''.png'',
                                   ''feedforward'' @ ''/'' @ str_int epoch @ ''.pt''])
                     [1..10]))"
proof (intro conjI)
  obtain st1 d1 where h: "conv_main zero_world [] = Inr (st1, d1)"
    using conv_main_zero_world by blast
  from epoch_file_names [THEN conjunct1, rule_format, OF conjI, OF h zero_world_test_loader] h
  show "\<exists>st' disk'. conv_main zero_world [] = Inr (st', disk')
      \<and> map fst disk'
          = concat (map (\<lambda>epoch. [''convolutional_cifar'' @ ''/'' @ str_int epoch @ ''.png'',
                                   ''convolutional_cifar'' @ ''/baseline'' @ str_int epoch @ ''.png'',
                                   ''convolutional_cifar'' @ ''/'' @ str_int epoch @ ''.pt''])
                     [1..20])"
    by (intro exI [of _ st1] exI [of _ d1]) (simp only: list.map append_Nil simp_thms)
next
  obtain st1 d1 where h: "res_main zero_world 1024 [] = Inr (st1, d1)"
    using res_main_zero_world by blast
  from epoch_file_names
    [THEN conjunct2, THEN conjunct1, rule_format, OF conjI, OF h zero_world_test_loader] h
  show "\<exists>st' disk'. res_main zero_world 1024 [] = Inr (st', disk')
      \<and> map fst disk'
          = concat (map (\<lambda>epoch.
              [(''residual_cifar_'' @ str_int 1024 @ ''_bottle'') @ ''/'' @ str_int epoch @ ''.png'',
               (''residual_cifar_'' @ str_int 1024 @ ''_bottle'') @ ''/'' @ str_int epoch
                 @ ''baseline.png'',
               (''residual_cifar_'' @ str_int 1024 @ ''_bottle'') @ ''/'' @ str_int epoch @ ''.pt''])
                     [1..20])"
    by (intro exI [of _ st1] exI [of _ d1]) (simp only: list.map append_Nil simp_thms)
next
  obtain st1 d1 where h: "cond_main zero_world [] = Inr (st1, d1)"
    using cond_main_zero_world by blast
  from epoch_file_names
    [THEN conjunct2, THEN conjunct2, THEN conjunct1, rule_format, OF conjI,
      OF h zero_world_test_loader] h
  show "\<exists>st' disk'. cond_main zero_world [] = Inr (st', disk')
      \<and> map fst disk'
          = concat (map (\<lambda>epoch. [''conditional'' @ ''/'' @ str_int epoch @ ''.png'',
                                   ''conditional'' @ ''/'' @ str_int epoch @ ''baseline.png'',
                                   ''conditional'' @ ''/'' @ str_int epoch @ ''.pt''])
                     [1..10])"
    by (intro exI [of _ st1] exI [of _ d1]) (simp only: list.map append_Nil simp_thms)
next
  obtain st1 d1 where h: "ff_main ff_zero_world [] = Inr (st1, d1)"
    using ff_main_zero_world by blast
  from epoch_file_names
    [THEN conjunct2, THEN conjunct2, THEN conjunct2, rule_format, OF conjI,
      OF h ff_zero_world_test_loader] h
  show "\<exists>st' disk'. ff_main ff_zero_world [] = Inr (st', disk')
      \<and> map fst disk'
          = concat (map (\<lambda>epoch. [''feedforward'' @ ''/'' @ str_int epoch @ ''.png'',
                                   ''feedforward'' @ ''/baseline'' @ str_int epoch @ ''.png'',
                                   ''feedforward'' @ ''/'' @ str_int epoch @ ''.pt''])
                     [1..10])"
    by (intro exI [of _ st1] exI [of _ d1]) (simp only: list.map append_Nil simp_thms)
qed

text \<open>
  C10. In the residual script, \<^verbatim>\<open>Autoencoder(b1)\<close> and \<^verbatim>\<open>Autoencoder(b2)\<close> are the same
  model for any two bottleneck values; \<^verbatim>\<open>main(b1)\<close> is the run of the epochs with the
  model built for any other value \<open>b2\<close> and the folder named after \<open>b1\<close>; and different
  bottleneck values give different folder names.
\<close>

theorem bottleneck_only_names_the_folder:
  "res_Autoencoder_init b1 = res_Autoencoder_init b2
   \<and> res_main E b1 disk
       = loop_result
           (\<lparr>params = initial_params E, optimizer = Adam E (initial_params E), training = True\<rparr>,
            disk)
           (for_each
              (res_main_body E (res_Autoencoder_init b2)
                 (fst (get_cifar10 E ''data'' (cuda_is_available E) 128 100))
                 (snd (get_cifar10 E ''data'' (cuda_is_available E) 128 100))
                 (''residual_cifar_'' @ str_int b1 @ ''_bottle'') True)
              (\<lparr>params = initial_params E, optimizer = Adam E (initial_params E),
                training = True\<rparr>, disk)
              [1..20])
   \<and> (b1 \<noteq> b2 \<longrightarrow>
        ''residual_cifar_'' @ str_int b1 @ ''_bottle'' \<noteq> ''residual_cifar_'' @ str_int b2 @ ''_bottle'')"
proof (intro conjI impI)
  show eq: "res_Autoencoder_init b1 = res_Autoencoder_init b2"
    by (simp add: res_Autoencoder_init_def)
  show "res_main E b1 disk
       = loop_result
           (\<lparr>params = initial_params E, optimizer = Adam E (initial_params E), training = True\<rparr>,
            disk)
           (for_each
              (res_main_body E (res_Autoencoder_init b2)
                 (fst (get_cifar10 E ''data'' (cuda_is_available E) 128 100))
                 (snd (get_cifar10 E ''data'' (cuda_is_available E) 128 100))
                 (''residual_cifar_'' @ str_int b1 @ ''_bottle'') True)
              (\<lparr>params = initial_params E, optimizer = Adam E (initial_params E),
                training = True\<rparr>, disk)
              [1..20])"
    unfolding eq [symmetric]
    by (simp add: res_main_def Let_def split_def)
  assume "b1 \<noteq> b2"
  then show "''residual_cifar_'' @ str_int b1 @ ''_bottle''
      \<noteq> ''residual_cifar_'' @ str_int b2 @ ''_bottle''"
    using folder_inj by blast
qed

theorem bottleneck_only_names_the_folder_witness:
  "(1024::int) \<noteq> 512
   \<and> res_Autoencoder_init 1024 = res_Autoencoder_init 512
   \<and> ''residual_cifar_'' @ str_int 1024 @ ''_bottle'' \<noteq> ''residual_cifar_'' @ str_int 512 @ ''_bottle''"
proof -
  have ne: "(1024::int) \<noteq> 512" by simp
  from bottleneck_only_names_the_folder [of 1024 512 zero_world "[]"] ne
  show ?thesis by blast
qed

end
